theory Spec2Isabelle
  imports Main
begin

section \<open>Expression trees\<close>

text \<open>
  The expression trees the composer in \<^verbatim>\<open>src/unnamed/part_001\<close> builds:
  \<^verbatim>\<open>{ type: 'expression', chain: [ { type: 'function', function: name, arguments: {...} }, ... ] }\<close>.
  The \<^verbatim>\<open>arguments\<close> object is kept as an association list in the order of the keys of the
  object literal; an argument value is a text or a nested tree.
\<close>

datatype ast = Ast (chain: "func list")
  and func = Func (function_name: string) (arguments: "(string \<times> arg list) list")
  and arg = ArgText string | ArgTree ast

text \<open>A value of the TypeScript type \<^verbatim>\<open>Ast | string\<close>; \<^verbatim>\<open>null\<close> is \<open>None\<close> of the option type.\<close>

datatype expression = Tree ast | Text string

text \<open>
  What the composer can throw: the \<^verbatim>\<open>TypeError\<close> of reading \<^verbatim>\<open>.state\<close> of
  \<^verbatim>\<open>undefined\<close> (its own), and whatever the external parser \<^verbatim>\<open>fromExpression\<close> throws on
  a text it rejects (passed on unchanged).
\<close>

datatype error = TypeError | ParseError string

text \<open>
  JavaScript truthiness of a value of type \<^verbatim>\<open>Ast | string | null\<close>, as tested by
  \<^verbatim>\<open>if (result)\<close> and \<^verbatim>\<open>if (!expression)\<close>: \<^verbatim>\<open>null\<close> and the empty string are falsy,
  every object is truthy.
\<close>

fun truthy :: "expression option \<Rightarrow> bool" where
  "truthy None = False"
| "truthy (Some (Text s)) = (s \<noteq> [])"
| "truthy (Some (Tree a)) = True"

text \<open>
  \<^verbatim>\<open>typeof expr === 'string' ? fromExpression(expr) : expr\<close>. The parser is external
  (\<^verbatim>\<open>@kbn/interpreter/common\<close>) and is a parameter; \<open>None\<close> is a text it rejects by throwing.
\<close>

definition parseExpression :: "(string \<Rightarrow> ast option) \<Rightarrow> expression \<Rightarrow> error + ast" where
  "parseExpression fromExpression expr =
     (case expr of
        Text s \<Rightarrow> (case fromExpression s of None \<Rightarrow> Inl (ParseError s) | Some a \<Rightarrow> Inr a)
      | Tree a \<Rightarrow> Inr a)"

section \<open>Data sources\<close>

text \<open>
  A state is of the TypeScript type \<^verbatim>\<open>unknown\<close>: it may be \<^verbatim>\<open>undefined\<close>.
\<close>

datatype 'st jsvalue = Undefined | Value 'st

text \<open>
  The two capabilities of a data source. What \<^verbatim>\<open>toExpression\<close> returns is of type
  \<^verbatim>\<open>Ast | string | null\<close>; the type \<open>'e\<close> stands for \<^verbatim>\<open>Ast | string\<close>, which is
  \<open>expression\<close> where trees are values.
\<close>

record ('st, 'e) datasource =
  getLayers :: "'st jsvalue \<Rightarrow> string list"
  toExpression :: "'st jsvalue \<Rightarrow> string \<Rightarrow> 'e option"

record 'st datasourceState =
  isLoading :: bool
  state :: "'st jsvalue"

text \<open>
  \<^verbatim>\<open>datasourceStates[datasourceId].state\<close>. The state map is an ordinary object, so the
  property read finds the entry the object has of its own or else a member every object
  inherits from \<^verbatim>\<open>Object.prototype\<close>; such a member (a function, or the prototype itself
  for \<^verbatim>\<open>__proto__\<close>) has no \<^verbatim>\<open>state\<close>, and the state read is \<^verbatim>\<open>undefined\<close>. With
  neither, the read is of \<^verbatim>\<open>.state\<close> of \<^verbatim>\<open>undefined\<close> and throws.
\<close>

definition objectPrototypeProperties :: "string list" where
  "objectPrototypeProperties =
     [''constructor'', ''hasOwnProperty'', ''isPrototypeOf'', ''propertyIsEnumerable'',
      ''toLocaleString'', ''toString'', ''valueOf'', ''__proto__'', ''__defineGetter__'',
      ''__defineSetter__'', ''__lookupGetter__'', ''__lookupSetter__'']"

definition readState :: "(string \<rightharpoonup> 'st datasourceState) \<Rightarrow> string \<Rightarrow> error + 'st jsvalue" where
  "readState datasourceStates datasourceId =
     (case datasourceStates datasourceId of
        Some entry \<Rightarrow> Inr (state entry)
      | None \<Rightarrow>
          if datasourceId \<in> set objectPrototypeProperties then Inr Undefined
          else Inl TypeError)"

text \<open>
  The inner \<^verbatim>\<open>layers.forEach\<close> of \<^verbatim>\<open>prependDatasourceExpression\<close>: the accumulator is the
  local array \<^verbatim>\<open>datasourceExpressions\<close>, \<^verbatim>\<open>push\<close> appends at its end.
\<close>

fun forEachLayer ::
  "('st, expression) datasource \<Rightarrow> 'st jsvalue \<Rightarrow> string list \<Rightarrow>
   (string \<times> expression) list \<Rightarrow> (string \<times> expression) list"
where
  "forEachLayer datasource st [] datasourceExpressions = datasourceExpressions"
| "forEachLayer datasource st (layerId # layers) datasourceExpressions =
     (let result = toExpression datasource st layerId in
      forEachLayer datasource st layers
        (case result of
           None \<Rightarrow> datasourceExpressions
         | Some r \<Rightarrow>
             if truthy result then datasourceExpressions @ [(layerId, r)]
             else datasourceExpressions))"

text \<open>
  The outer \<^verbatim>\<open>Object.entries(datasourceMap).forEach\<close>. The data-source map is given as the list
  of its entries in the order \<^verbatim>\<open>Object.entries\<close> yields them.
\<close>

fun forEachDatasource ::
  "(string \<times> ('st, expression) datasource) list \<Rightarrow> (string \<rightharpoonup> 'st datasourceState) \<Rightarrow>
   (string \<times> expression) list \<Rightarrow> error + (string \<times> expression) list"
where
  "forEachDatasource [] datasourceStates datasourceExpressions = Inr datasourceExpressions"
| "forEachDatasource ((datasourceId, datasource) # entries) datasourceStates datasourceExpressions =
     (case readState datasourceStates datasourceId of
        Inl e \<Rightarrow> Inl e
      | Inr st \<Rightarrow>
          (let layers = getLayers datasource st
           in forEachDatasource entries datasourceStates
                (forEachLayer datasource st layers datasourceExpressions)))"

text \<open>
  \<^verbatim>\<open>datasourceExpressions.map(([layerId, expr]) => [layerId, typeof expr === 'string' ? fromExpression(expr) : expr])\<close>:
  the first text the parser rejects ends the call.
\<close>

fun parseDatasourceExpressions ::
  "(string \<Rightarrow> ast option) \<Rightarrow> (string \<times> expression) list \<Rightarrow> error + (string \<times> ast) list"
where
  "parseDatasourceExpressions fromExpression [] = Inr []"
| "parseDatasourceExpressions fromExpression ((layerId, expr) # rest) =
     (case parseExpression fromExpression expr of
        Inl e \<Rightarrow> Inl e
      | Inr a \<Rightarrow>
          (case parseDatasourceExpressions fromExpression rest of
             Inl e \<Rightarrow> Inl e
           | Inr parsed \<Rightarrow> Inr ((layerId, a) # parsed)))"

definition datafetchExpression :: "(string \<times> ast) list \<Rightarrow> func" where
  "datafetchExpression parsedDatasourceExpressions =
     Func ''lens_merge_tables''
       [(''layerIds'', map (\<lambda>(id, expr). ArgText id) parsedDatasourceExpressions),
        (''tables'', map (\<lambda>(id, expr). ArgTree expr) parsedDatasourceExpressions)]"

definition prependDatasourceExpression ::
  "(string \<Rightarrow> ast option) \<Rightarrow> expression option \<Rightarrow>
   (string \<times> ('st, expression) datasource) list \<Rightarrow>
   (string \<rightharpoonup> 'st datasourceState) \<Rightarrow> error + ast option"
where
  "prependDatasourceExpression fromExpression visualizationExpression datasourceMap datasourceStates =
     (case forEachDatasource datasourceMap datasourceStates [] of
        Inl e \<Rightarrow> Inl e
      | Inr datasourceExpressions \<Rightarrow>
          if length datasourceExpressions = 0 \<or> visualizationExpression = None then Inr None
          else
            (case parseDatasourceExpressions fromExpression datasourceExpressions of
               Inl e \<Rightarrow> Inl e
             | Inr parsedDatasourceExpressions \<Rightarrow>
                 (case visualizationExpression of
                    None \<Rightarrow> Inr None
                  | Some visExpr \<Rightarrow>
                      (case parseExpression fromExpression visExpr of
                         Inl e \<Rightarrow> Inl e
                       | Inr parsedVisualizationExpression \<Rightarrow>
                           Inr (Some (Ast (datafetchExpression parsedDatasourceExpressions
                                           # chain parsedVisualizationExpression)))))))"

section \<open>Context\<close>

text \<open>
  The second parameter of \<^verbatim>\<open>prependKibanaContext\<close>; each field is optional. The values are of an
  opaque type \<open>'j\<close> of JavaScript objects (a \<^verbatim>\<open>TimeRange\<close>, a \<^verbatim>\<open>Query\<close>, an array of
  \<^verbatim>\<open>Filter\<close>), every one of them truthy. \<^verbatim>\<open>JSON.stringify\<close> is the runtime's and is a parameter.
\<close>

record 'j kibanaContext =
  timeRange :: "'j option"
  query :: "'j option"
  filters :: "'j option"

definition contextArgument :: "('j \<Rightarrow> string) \<Rightarrow> 'j option \<Rightarrow> arg list" where
  "contextArgument JSON_stringify v =
     (case v of Some x \<Rightarrow> [ArgText (JSON_stringify x)] | None \<Rightarrow> [])"

definition prependKibanaContext ::
  "(string \<Rightarrow> ast option) \<Rightarrow> ('j \<Rightarrow> string) \<Rightarrow> expression option \<Rightarrow> 'j kibanaContext \<Rightarrow> error + ast option"
where
  "prependKibanaContext fromExpression JSON_stringify expression ctx =
     (if \<not> truthy expression then Inr None
      else
        (case expression of
           None \<Rightarrow> Inr None
         | Some expr \<Rightarrow>
             (case parseExpression fromExpression expr of
                Inl e \<Rightarrow> Inl e
              | Inr parsedExpression \<Rightarrow>
                  Inr (Some (Ast
                    ([Func ''kibana'' [],
                      Func ''kibana_context''
                        [(''timeRange'', contextArgument JSON_stringify (timeRange ctx)),
                         (''query'', contextArgument JSON_stringify (query ctx)),
                         (''filters'', contextArgument JSON_stringify (filters ctx))]]
                     @ chain parsedExpression))))))"

section \<open>The orchestration\<close>

record ('vs, 'fr, 'e) visualization =
  vis_toExpression :: "'vs \<Rightarrow> 'fr \<Rightarrow> 'e option"

text \<open>
  \<^verbatim>\<open>buildExpression\<close> takes one object and destructures it at once; its five fields are
  the five arguments here, after the parser and the serializer. The context object it passes
  on is the empty one.
\<close>

definition buildExpression ::
  "(string \<Rightarrow> ast option) \<Rightarrow> ('j \<Rightarrow> string) \<Rightarrow>
   ('vs, 'fr, expression) visualization option \<Rightarrow> 'vs \<Rightarrow>
   (string \<times> ('st, expression) datasource) list \<Rightarrow>
   (string \<rightharpoonup> 'st datasourceState) \<Rightarrow> 'fr \<Rightarrow> error + ast option"
where
  "buildExpression fromExpression JSON_stringify visualization visualizationState datasourceMap
     datasourceStates framePublicAPI =
     (case visualization of
        None \<Rightarrow> Inr None
      | Some vis \<Rightarrow>
          (let visualizationExpression = vis_toExpression vis visualizationState framePublicAPI
           in case prependDatasourceExpression fromExpression visualizationExpression
                     datasourceMap datasourceStates of
                Inl e \<Rightarrow> Inl e
              | Inr merged \<Rightarrow>
                  prependKibanaContext fromExpression JSON_stringify
                    (map_option Tree merged)
                    \<lparr>timeRange = None, query = None, filters = None\<rparr>))"

section \<open>What the data sources are asked and what they contribute\<close>

text \<open>
  In the words of the specification. The requests: for every data source, in the order of
  the map, and for every layer it reports for its state, in the reported order, the layer's
  identifier with what \<^verbatim>\<open>toExpression\<close> answers for it. A data source whose state cannot
  be read reports nothing.
\<close>

definition requestedLayers ::
  "(string \<times> ('st, 'e) datasource) list \<Rightarrow> (string \<rightharpoonup> 'st datasourceState) \<Rightarrow>
   (string \<times> 'e option) list"
where
  "requestedLayers datasourceMap datasourceStates =
     concat (map (\<lambda>(datasourceId, datasource).
                    case readState datasourceStates datasourceId of
                      Inl e \<Rightarrow> []
                    | Inr st \<Rightarrow>
                        map (\<lambda>layerId. (layerId, toExpression datasource st layerId))
                          (getLayers datasource st))
                 datasourceMap)"

text \<open>
  The requests that were answered with an expression, each with its expression, in the
  order of the requests.
\<close>

definition withExpression :: "(string \<times> expression option) list \<Rightarrow> (string \<times> expression) list" where
  "withExpression requests =
     List.map_filter
       (\<lambda>(layerId, result). case result of
            None \<Rightarrow> None
          | Some e \<Rightarrow> if e = Text '''' then None else Some (layerId, e))
       requests"

text \<open>
  The contributed layer expressions: the layers of one data source with their expressions,
  the layers without an expression left out, and these lists one after the other over the
  data sources of the map. In the code the test is \<^verbatim>\<open>if (result)\<close>, so the empty text
  counts as no expression.
\<close>

definition layerExpressions ::
  "('st, expression) datasource \<Rightarrow> 'st jsvalue \<Rightarrow> (string \<times> expression) list"
where
  "layerExpressions datasource st =
     List.map_filter
       (\<lambda>layerId. case toExpression datasource st layerId of
                    None \<Rightarrow> None
                  | Some e \<Rightarrow> if e = Text '''' then None else Some (layerId, e))
       (getLayers datasource st)"

definition contributedLayers ::
  "(string \<times> ('st, expression) datasource) list \<Rightarrow> (string \<rightharpoonup> 'st datasourceState) \<Rightarrow>
   (string \<times> expression) list"
where
  "contributedLayers datasourceMap datasourceStates =
     concat (map (\<lambda>(datasourceId, datasource).
                    case readState datasourceStates datasourceId of
                      Inl e \<Rightarrow> []
                    | Inr st \<Rightarrow> layerExpressions datasource st)
                 datasourceMap)"

text \<open>
  The state map yields a value for every identifier of the data-source map: an entry of its
  own or an inherited member.
\<close>

definition statesReadable ::
  "(string \<times> ('st, expression) datasource) list \<Rightarrow> (string \<rightharpoonup> 'st datasourceState) \<Rightarrow>
   bool"
where
  "statesReadable datasourceMap datasourceStates =
     list_all (\<lambda>(datasourceId, datasource).
                 case readState datasourceStates datasourceId of
                   Inl e \<Rightarrow> False
                 | Inr st \<Rightarrow> True)
       datasourceMap"

section \<open>Sample inputs\<close>

text \<open>
  A parser that knows three texts: the empty one (an empty chain) and the one-function
  expressions \<^verbatim>\<open>A\<close> and \<^verbatim>\<open>B\<close>; it rejects every other text.
\<close>

definition sampleParser :: "string \<Rightarrow> ast option" where
  "sampleParser s =
     (if s = [] then Some (Ast [])
      else if s = ''A'' then Some (Ast [Func ''A'' []])
      else if s = ''B'' then Some (Ast [Func ''B'' []])
      else None)"

text \<open>A serializer of texts that puts them in double quotes.\<close>

definition sampleStringify :: "string \<Rightarrow> string" where
  "sampleStringify s = CHR 0x22 # s @ [CHR 0x22]"

text \<open>
  A data source whose state is the list of its layers; without a state it reports the one
  layer \<^verbatim>\<open>L1\<close>. Layer \<^verbatim>\<open>L1\<close> has the textual expression \<^verbatim>\<open>B\<close>, \<^verbatim>\<open>L2\<close> a tree,
  \<^verbatim>\<open>L3\<close> the empty text, \<^verbatim>\<open>L4\<close> a text the sample parser rejects, and any other layer
  no expression.
\<close>

definition sampleDatasource :: "(string list, expression) datasource" where
  "sampleDatasource =
     \<lparr>getLayers = (\<lambda>st. case st of Undefined \<Rightarrow> [''L1''] | Value layers \<Rightarrow> layers),
      toExpression = (\<lambda>st layerId.
        if layerId = ''L1'' then Some (Text ''B'')
        else if layerId = ''L2'' then Some (Tree (Ast [Func ''C'' []]))
        else if layerId = ''L3'' then Some (Text '''')
        else if layerId = ''L4'' then Some (Text ''?'')
        else None)\<rparr>"

definition sampleMap :: "(string \<times> (string list, expression) datasource) list" where
  "sampleMap = [(''ds1'', sampleDatasource)]"

definition sampleStates :: "string \<rightharpoonup> string list datasourceState" where
  "sampleStates =
     [''ds1'' \<mapsto> \<lparr>isLoading = False, state = Value [''L1'', ''L0'', ''L2'', ''L3'']\<rparr>]"


section \<open>Data sources to compare with\<close>

text \<open>
  The same data source, reporting only the layers it has an expression for.
\<close>

definition withoutAbsentLayers :: "('st, 'e) datasource \<Rightarrow> ('st, 'e) datasource" where
  "withoutAbsentLayers datasource =
     datasource\<lparr>getLayers :=
       (\<lambda>st. filter (\<lambda>layerId. toExpression datasource st layerId \<noteq> None)
                    (getLayers datasource st))\<rparr>"

text \<open>
  The same data source, reporting no expression where it had the empty text.
\<close>

definition emptyTextAsAbsent :: "('st, expression) datasource \<Rightarrow> ('st, expression) datasource" where
  "emptyTextAsAbsent datasource =
     datasource\<lparr>toExpression :=
       (\<lambda>st layerId.
          if toExpression datasource st layerId = Some (Text '''') then None
          else toExpression datasource st layerId)\<rparr>"

text \<open>The sample parser, made to reject the empty text.\<close>

definition strictParser :: "string \<Rightarrow> ast option" where
  "strictParser s = (if s = '''' then None else sampleParser s)"

section \<open>The same functions on a heap of objects\<close>

text \<open>
  In JavaScript the data-source map, the state map and every expression tree are objects
  reached by reference, and an array can be changed in place. For the question of what a
  call changes, the heap is the list of the objects allocated so far, an address is a
  position in it, and a new object goes to the end. Texts and \<^verbatim>\<open>null\<close> are values, not
  objects. A tree that the visualization or a data source hands out is an object of the
  heap, handed out by its address. Objects a call creates and drops at once (the array of
  entries, the array of parsed pairs, the tree of a parsed text) are not put in the heap;
  the local array \<^verbatim>\<open>datasourceExpressions\<close>, which \<^verbatim>\<open>push\<close> changes in place, and the
  trees that are returned are.
\<close>

type_synonym addr = nat

text \<open>A value of type \<^verbatim>\<open>Ast | string\<close> where trees are objects: a reference or a text.\<close>

datatype exprRef = TreeRef addr | TextVal string

datatype 'st object =
    TreeObject ast
  | MapObject "(string \<times> ('st, exprRef) datasource) list"
  | StatesObject "string \<rightharpoonup> 'st datasourceState"
  | ArrayObject "(string \<times> exprRef) list"

type_synonym 'st heap = "'st object list"

definition lookup :: "'st heap \<Rightarrow> addr \<Rightarrow> 'st object option" where
  "lookup h r = (if r < length h then Some (h ! r) else None)"

definition alloc :: "'st object \<Rightarrow> 'st heap \<Rightarrow> addr \<times> 'st heap" where
  "alloc obj h = (length h, h @ [obj])"

text \<open>\<^verbatim>\<open>array.push(x)\<close>: the one operation of the file that changes an object.\<close>

definition push :: "addr \<Rightarrow> string \<times> exprRef \<Rightarrow> 'st heap \<Rightarrow> 'st heap" where
  "push a x h =
     (case lookup h a of
        Some (ArrayObject xs) \<Rightarrow> h[a := ArrayObject (xs @ [x])]
      | _ \<Rightarrow> h)"

fun truthyRef :: "exprRef option \<Rightarrow> bool" where
  "truthyRef None = False"
| "truthyRef (Some (TextVal s)) = (s \<noteq> [])"
| "truthyRef (Some (TreeRef r)) = True"

text \<open>
  \<^verbatim>\<open>typeof expr === 'string' ? fromExpression(expr) : expr\<close>, followed by the read of the
  tree the reference leads to.
\<close>

definition parseExprRef :: "(string \<Rightarrow> ast option) \<Rightarrow> 'st heap \<Rightarrow> exprRef \<Rightarrow> error + ast" where
  "parseExprRef fromExpression h expr =
     (case expr of
        TextVal s \<Rightarrow> (case fromExpression s of None \<Rightarrow> Inl (ParseError s) | Some a \<Rightarrow> Inr a)
      | TreeRef r \<Rightarrow> (case lookup h r of Some (TreeObject a) \<Rightarrow> Inr a | _ \<Rightarrow> Inl TypeError))"

fun forEachLayer_heap ::
  "('st, exprRef) datasource \<Rightarrow> 'st jsvalue \<Rightarrow> string list \<Rightarrow> addr \<Rightarrow> 'st heap \<Rightarrow> 'st heap"
where
  "forEachLayer_heap datasource st [] datasourceExpressions h = h"
| "forEachLayer_heap datasource st (layerId # layers) datasourceExpressions h =
     (let result = toExpression datasource st layerId in
      forEachLayer_heap datasource st layers datasourceExpressions
        (case result of
           None \<Rightarrow> h
         | Some r \<Rightarrow> if truthyRef result then push datasourceExpressions (layerId, r) h else h))"

text \<open>
  The entries are those \<^verbatim>\<open>Object.entries\<close> has read from the map before the loop starts;
  the state map is read from the heap in every round, as line 27 does.
\<close>

fun forEachDatasource_heap ::
  "(string \<times> ('st, exprRef) datasource) list \<Rightarrow> addr \<Rightarrow> addr \<Rightarrow> 'st heap \<Rightarrow>
   error option \<times> 'st heap"
where
  "forEachDatasource_heap [] datasourceStates datasourceExpressions h = (None, h)"
| "forEachDatasource_heap ((datasourceId, datasource) # entries) datasourceStates
     datasourceExpressions h =
     (case lookup h datasourceStates of
        Some (StatesObject states) \<Rightarrow>
          (case readState states datasourceId of
             Inl e \<Rightarrow> (Some e, h)
           | Inr st \<Rightarrow>
               forEachDatasource_heap entries datasourceStates datasourceExpressions
                 (forEachLayer_heap datasource st (getLayers datasource st)
                    datasourceExpressions h))
      | _ \<Rightarrow> (Some TypeError, h))"

fun parseDatasourceExpressions_heap ::
  "(string \<Rightarrow> ast option) \<Rightarrow> 'st heap \<Rightarrow> (string \<times> exprRef) list \<Rightarrow>
   error + (string \<times> ast) list"
where
  "parseDatasourceExpressions_heap fromExpression h [] = Inr []"
| "parseDatasourceExpressions_heap fromExpression h ((layerId, expr) # rest) =
     (case parseExprRef fromExpression h expr of
        Inl e \<Rightarrow> Inl e
      | Inr a \<Rightarrow>
          (case parseDatasourceExpressions_heap fromExpression h rest of
             Inl e \<Rightarrow> Inl e
           | Inr parsed \<Rightarrow> Inr ((layerId, a) # parsed)))"

definition prependDatasourceExpression_heap ::
  "(string \<Rightarrow> ast option) \<Rightarrow> exprRef option \<Rightarrow> addr \<Rightarrow> addr \<Rightarrow> 'st heap \<Rightarrow>
   (error + addr option) \<times> 'st heap"
where
  "prependDatasourceExpression_heap fromExpression visualizationExpression datasourceMap
     datasourceStates h =
     (let (datasourceExpressions, h1) = alloc (ArrayObject []) h in
      case lookup h1 datasourceMap of
        Some (MapObject entries) \<Rightarrow>
          (case forEachDatasource_heap entries datasourceStates datasourceExpressions h1 of
             (Some e, h2) \<Rightarrow> (Inl e, h2)
           | (None, h2) \<Rightarrow>
               (case lookup h2 datasourceExpressions of
                  Some (ArrayObject pairs) \<Rightarrow>
                    if length pairs = 0 \<or> visualizationExpression = None then (Inr None, h2)
                    else
                      (case parseDatasourceExpressions_heap fromExpression h2 pairs of
                         Inl e \<Rightarrow> (Inl e, h2)
                       | Inr parsedDatasourceExpressions \<Rightarrow>
                           (case visualizationExpression of
                              None \<Rightarrow> (Inr None, h2)
                            | Some visExpr \<Rightarrow>
                                (case parseExprRef fromExpression h2 visExpr of
                                   Inl e \<Rightarrow> (Inl e, h2)
                                 | Inr parsedVisualizationExpression \<Rightarrow>
                                     (let (r, h3) =
                                        alloc (TreeObject (Ast
                                          (datafetchExpression parsedDatasourceExpressions
                                           # chain parsedVisualizationExpression))) h2
                                      in (Inr (Some r), h3)))))
                | _ \<Rightarrow> (Inl TypeError, h2)))
      | _ \<Rightarrow> (Inl TypeError, h1))"

definition prependKibanaContext_heap ::
  "(string \<Rightarrow> ast option) \<Rightarrow> ('j \<Rightarrow> string) \<Rightarrow> exprRef option \<Rightarrow> 'j kibanaContext \<Rightarrow>
   'st heap \<Rightarrow> (error + addr option) \<times> 'st heap"
where
  "prependKibanaContext_heap fromExpression JSON_stringify expression ctx h =
     (if \<not> truthyRef expression then (Inr None, h)
      else
        (case expression of
           None \<Rightarrow> (Inr None, h)
         | Some expr \<Rightarrow>
             (case parseExprRef fromExpression h expr of
                Inl e \<Rightarrow> (Inl e, h)
              | Inr parsedExpression \<Rightarrow>
                  (let (r, h1) =
                     alloc (TreeObject (Ast
                       ([Func ''kibana'' [],
                         Func ''kibana_context''
                           [(''timeRange'', contextArgument JSON_stringify (timeRange ctx)),
                            (''query'', contextArgument JSON_stringify (query ctx)),
                            (''filters'', contextArgument JSON_stringify (filters ctx))]]
                        @ chain parsedExpression))) h
                   in (Inr (Some r), h1)))))"

definition buildExpression_heap ::
  "(string \<Rightarrow> ast option) \<Rightarrow> ('j \<Rightarrow> string) \<Rightarrow>
   ('vs, 'fr, exprRef) visualization option \<Rightarrow> 'vs \<Rightarrow> addr \<Rightarrow> addr \<Rightarrow> 'fr \<Rightarrow> 'st heap \<Rightarrow>
   (error + addr option) \<times> 'st heap"
where
  "buildExpression_heap fromExpression JSON_stringify visualization visualizationState
     datasourceMap datasourceStates framePublicAPI h =
     (case visualization of
        None \<Rightarrow> (Inr None, h)
      | Some vis \<Rightarrow>
          (let visualizationExpression = vis_toExpression vis visualizationState framePublicAPI
           in case prependDatasourceExpression_heap fromExpression visualizationExpression
                     datasourceMap datasourceStates h of
                (Inl e, h2) \<Rightarrow> (Inl e, h2)
              | (Inr merged, h2) \<Rightarrow>
                  prependKibanaContext_heap fromExpression JSON_stringify
                    (map_option TreeRef merged)
                    \<lparr>timeRange = None, query = None, filters = None\<rparr> h2))"

text \<open>What a result stands for: the error, \<^verbatim>\<open>null\<close>, or the tree at the returned address.\<close>

definition resultValue :: "'st heap \<Rightarrow> error + addr option \<Rightarrow> error + ast option" where
  "resultValue h res =
     (case res of
        Inl e \<Rightarrow> Inl e
      | Inr None \<Rightarrow> Inr None
      | Inr (Some r) \<Rightarrow>
          (case lookup h r of Some (TreeObject t) \<Rightarrow> Inr (Some t) | _ \<Rightarrow> Inl TypeError))"

text \<open>
  The value a reference or text stands for in a heap, and whether a reference leads to a
  tree of the heap.
\<close>

definition exprValue :: "'st heap \<Rightarrow> exprRef option \<Rightarrow> expression option" where
  "exprValue h expr =
     (case expr of
        None \<Rightarrow> None
      | Some (TextVal s) \<Rightarrow> Some (Text s)
      | Some (TreeRef r) \<Rightarrow>
          (case lookup h r of Some (TreeObject t) \<Rightarrow> Some (Tree t) | _ \<Rightarrow> None))"

definition exprAllocated :: "'st heap \<Rightarrow> exprRef option \<Rightarrow> bool" where
  "exprAllocated h expr =
     (case expr of
        Some (TreeRef r) \<Rightarrow> (case lookup h r of Some (TreeObject t) \<Rightarrow> True | _ \<Rightarrow> False)
      | _ \<Rightarrow> True)"

text \<open>
  A data source and a visualization as they appear through a heap: the trees they hand out
  read as values.
\<close>

definition datasourceAt :: "'st heap \<Rightarrow> ('st, exprRef) datasource \<Rightarrow> ('st, expression) datasource" where
  "datasourceAt h datasource =
     \<lparr>getLayers = getLayers datasource,
      toExpression = (\<lambda>st layerId. exprValue h (toExpression datasource st layerId))\<rparr>"

definition visualizationAt ::
  "'st heap \<Rightarrow> ('vs, 'fr, exprRef) visualization \<Rightarrow> ('vs, 'fr, expression) visualization"
where
  "visualizationAt h vis =
     \<lparr>vis_toExpression = (\<lambda>st frame. exprValue h (vis_toExpression vis st frame))\<rparr>"

text \<open>
  A heap with a data-source map at address 0, the sample states at address 1, the tree of
  the visualization at address 2 and the tree of layer \<^verbatim>\<open>L2\<close> at address 3.
\<close>

definition sampleDatasourceRef :: "(string list, exprRef) datasource" where
  "sampleDatasourceRef =
     \<lparr>getLayers = (\<lambda>st. case st of Undefined \<Rightarrow> [''L1''] | Value layers \<Rightarrow> layers),
      toExpression = (\<lambda>st layerId.
        if layerId = ''L1'' then Some (TextVal ''B'')
        else if layerId = ''L2'' then Some (TreeRef 3)
        else if layerId = ''L3'' then Some (TextVal '''')
        else None)\<rparr>"

definition sampleVisualizationRef :: "(unit, unit, exprRef) visualization" where
  "sampleVisualizationRef = \<lparr>vis_toExpression = (\<lambda>st frame. Some (TreeRef 2))\<rparr>"

definition sampleHeap :: "string list heap" where
  "sampleHeap =
     [MapObject [(''ds1'', sampleDatasourceRef)], StatesObject sampleStates,
      TreeObject (Ast [Func ''A'' []]), TreeObject (Ast [Func ''C'' []])]"

section \<open>The two loops\<close>

lemma truthy_iff: "truthy r \<longleftrightarrow> r \<noteq> None \<and> r \<noteq> Some (Text '''')"
  by (cases r rule: truthy.cases) auto

lemma readState_Inl: "readState datasourceStates datasourceId = Inl e \<Longrightarrow> e = TypeError"
  by (auto simp: readState_def split: option.splits if_splits)

lemma forEachLayer_append:
  "forEachLayer datasource st layers acc =
     acc @ List.map_filter
       (\<lambda>layerId. case toExpression datasource st layerId of
                    None \<Rightarrow> None
                  | Some e \<Rightarrow> if e = Text '''' then None else Some (layerId, e)) layers"
  by (induction layers arbitrary: acc)
     (auto simp: truthy_iff Let_def List.map_filter_simps split: option.splits)

lemma forEachDatasource_readable:
  "statesReadable datasourceMap datasourceStates \<Longrightarrow>
   forEachDatasource datasourceMap datasourceStates acc
     = Inr (acc @ contributedLayers datasourceMap datasourceStates)"
proof (induction datasourceMap arbitrary: acc)
  case Nil
  show ?case by (simp add: contributedLayers_def)
next
  case (Cons entry entries)
  obtain datasourceId datasource where entry: "entry = (datasourceId, datasource)"
    by (cases entry)
  from Cons.prems obtain st where st: "readState datasourceStates datasourceId = Inr st"
    and rest: "statesReadable entries datasourceStates"
    by (auto simp: statesReadable_def entry split: sum.splits)
  show ?case
    using Cons.IH [OF rest] st
    by (simp add: entry forEachLayer_append contributedLayers_def layerExpressions_def)
qed

lemma forEachDatasource_unreadable:
  "\<not> statesReadable datasourceMap datasourceStates \<Longrightarrow>
   forEachDatasource datasourceMap datasourceStates acc = Inl TypeError"
proof (induction datasourceMap arbitrary: acc)
  case Nil
  then show ?case by (simp add: statesReadable_def)
next
  case (Cons entry entries)
  obtain datasourceId datasource where entry: "entry = (datasourceId, datasource)"
    by (cases entry)
  show ?case
  proof (cases "readState datasourceStates datasourceId")
    case (Inl e)
    with readState_Inl [OF Inl] show ?thesis by (simp add: entry)
  next
    case (Inr st)
    with Cons.prems have "\<not> statesReadable entries datasourceStates"
      by (simp add: statesReadable_def entry)
    from Cons.IH [OF this] Inr show ?thesis by (simp add: entry)
  qed
qed

lemma forEachDatasource_eq:
  "forEachDatasource datasourceMap datasourceStates acc =
     (if statesReadable datasourceMap datasourceStates
      then Inr (acc @ contributedLayers datasourceMap datasourceStates)
      else Inl TypeError)"
  by (simp add: forEachDatasource_readable forEachDatasource_unreadable)

lemma map_filter_map:
  "List.map_filter f (map g xs) = List.map_filter (f \<circ> g) xs"
  by (induction xs) (simp_all add: List.map_filter_simps split: option.splits)

lemma map_filter_concat:
  "List.map_filter f (concat xss) = concat (map (List.map_filter f) xss)"
  by (induction xss) (simp_all add: List.map_filter_def)

lemma contributedLayers_requested:
  "contributedLayers datasourceMap datasourceStates =
     List.map_filter
       (\<lambda>(layerId, result). case result of
            None \<Rightarrow> None
          | Some e \<Rightarrow> if e = Text '''' then None else Some (layerId, e))
       (requestedLayers datasourceMap datasourceStates)"
proof -
  have one: "layerExpressions datasource st =
     List.map_filter
       (\<lambda>(layerId, result). case result of
            None \<Rightarrow> None
          | Some e \<Rightarrow> if e = Text '''' then None else Some (layerId, e))
       (map (\<lambda>layerId. (layerId, toExpression datasource st layerId))
          (getLayers datasource st))"
    for datasource :: "('a, expression) datasource" and st
    by (simp add: layerExpressions_def map_filter_map comp_def)
  show ?thesis
    unfolding contributedLayers_def requestedLayers_def map_filter_concat map_map
    by (rule arg_cong [where f = concat], rule map_cong)
       (auto simp: one List.map_filter_simps split: sum.splits)
qed


lemma parseExpression_Inr:
  "parseExpression fromExpression expr = Inr a \<longleftrightarrow>
     (case expr of Tree t \<Rightarrow> a = t | Text s \<Rightarrow> fromExpression s = Some a)"
  by (auto simp: parseExpression_def split: expression.splits option.splits)

section \<open>Parsing and the merge step\<close>

lemma parseDatasourceExpressions_Inr:
  "parseDatasourceExpressions fromExpression xs = Inr ys \<longleftrightarrow>
     list_all2 (\<lambda>(layerId, expr) (layerId', a).
                  layerId' = layerId \<and> parseExpression fromExpression expr = Inr a) xs ys"
proof (induction xs arbitrary: ys)
  case Nil
  show ?case by auto
next
  case (Cons x xs)
  obtain layerId expr where x: "x = (layerId, expr)" by (cases x)
  show ?case
  proof (cases "parseExpression fromExpression expr")
    case (Inl e)
    then show ?thesis by (cases ys) (auto simp: x)
  next
    case a: (Inr a)
    show ?thesis
    proof (cases "parseDatasourceExpressions fromExpression xs")
      case (Inl e)
      have "\<not> list_all2 (\<lambda>(layerId, expr) (layerId', a).
                  layerId' = layerId \<and> parseExpression fromExpression expr = Inr a) xs zs" for zs
        using Cons.IH [of zs] Inl by simp
      with a Inl show ?thesis by (cases ys) (auto simp: x)
    next
      case (Inr parsed)
      have "list_all2 (\<lambda>(layerId, expr) (layerId', a).
                  layerId' = layerId \<and> parseExpression fromExpression expr = Inr a) xs zs
            \<longleftrightarrow> zs = parsed" for zs
        using Cons.IH [of zs] Inr by auto
      with a Inr show ?thesis by (cases ys) (auto simp: x)
    qed
  qed
qed


lemma parseDatasourceExpressions_total:
  "(\<forall>(layerId, expr) \<in> set xs. \<forall>s. expr = Text s \<longrightarrow> fromExpression s \<noteq> None) \<Longrightarrow>
     \<exists>ys. parseDatasourceExpressions fromExpression xs = Inr ys"
proof (induction xs)
  case Nil
  then show ?case by simp
next
  case (Cons x xs)
  obtain layerId expr where x: "x = (layerId, expr)" by (cases x)
  from Cons.prems have "\<exists>a. parseExpression fromExpression expr = Inr a"
    by (cases expr) (auto simp: x parseExpression_def)
  with Cons show ?case
    by (auto simp: x split: sum.splits)
qed

lemma prependDatasourceExpression_readable:
  assumes "statesReadable datasourceMap datasourceStates"
  shows "prependDatasourceExpression fromExpression visualizationExpression datasourceMap datasourceStates =
     (if contributedLayers datasourceMap datasourceStates = [] \<or> visualizationExpression = None
      then Inr None
      else
        (case parseDatasourceExpressions fromExpression
                (contributedLayers datasourceMap datasourceStates) of
           Inl e \<Rightarrow> Inl e
         | Inr parsed \<Rightarrow>
             (case visualizationExpression of
                None \<Rightarrow> Inr None
              | Some visExpr \<Rightarrow>
                  (case parseExpression fromExpression visExpr of
                     Inl e \<Rightarrow> Inl e
                   | Inr visAst \<Rightarrow> Inr (Some (Ast (datafetchExpression parsed # chain visAst)))))))"
  by (simp add: prependDatasourceExpression_def forEachDatasource_readable [OF assms])

lemma prependDatasourceExpression_unreadable:
  "\<not> statesReadable datasourceMap datasourceStates \<Longrightarrow>
   prependDatasourceExpression fromExpression visualizationExpression datasourceMap datasourceStates
     = Inl TypeError"
  by (simp add: prependDatasourceExpression_def forEachDatasource_unreadable)

lemma datafetchExpression_parsed:
  assumes "parseDatasourceExpressions fromExpression pairs = Inr parsed"
  shows "datafetchExpression parsed =
           Func ''lens_merge_tables''
             [(''layerIds'', map ArgText (map fst pairs)), (''tables'', map ArgTree (map snd parsed))]
         \<and> length (map snd parsed) = length pairs
         \<and> (\<forall>i < length pairs.
               case snd (pairs ! i) of
                 Tree t \<Rightarrow> map snd parsed ! i = t
               | Text s \<Rightarrow> fromExpression s = Some (map snd parsed ! i))"
proof -
  from assms have all2: "list_all2 (\<lambda>(layerId, expr) (layerId', a).
      layerId' = layerId \<and> parseExpression fromExpression expr = Inr a) pairs parsed"
    by (simp add: parseDatasourceExpressions_Inr)
  then have len: "length parsed = length pairs"
    by (simp add: list_all2_lengthD)
  have nth: "fst (parsed ! i) = fst (pairs ! i)
      \<and> parseExpression fromExpression (snd (pairs ! i)) = Inr (snd (parsed ! i))"
    if "i < length pairs" for i
    using list_all2_nthD [OF all2 that] by (auto simp: case_prod_beta)
  have ids: "map fst parsed = map fst pairs"
    by (rule nth_equalityI) (simp_all add: len nth)
  have "map (\<lambda>(id, expr). ArgText id) parsed = map ArgText (map fst parsed)"
    and "map (\<lambda>(id, expr). ArgTree expr) parsed = map ArgTree (map snd parsed)"
    by (simp_all add: case_prod_beta)
  moreover have "case snd (pairs ! i) of
                 Tree t \<Rightarrow> map snd parsed ! i = t
               | Text s \<Rightarrow> fromExpression s = Some (map snd parsed ! i)"
    if "i < length pairs" for i
    using nth [OF that] that len
    by (simp add: parseExpression_Inr split: expression.splits)
  ultimately show ?thesis
    using ids len by (simp add: datafetchExpression_def)
qed

lemma sample_contributed:
  "contributedLayers sampleMap sampleStates
     = [(''L1'', Text ''B''), (''L2'', Tree (Ast [Func ''C'' []]))]"
  by (simp add: contributedLayers_def sampleMap_def sampleStates_def layerExpressions_def
      sampleDatasource_def List.map_filter_simps readState_def)

lemma sample_readable: "statesReadable sampleMap sampleStates"
  by (simp add: statesReadable_def sampleMap_def sampleStates_def readState_def)

lemma sample_merged:
  "prependDatasourceExpression sampleParser (Some (Text ''A'')) sampleMap sampleStates
       = Inr (Some (Ast
           [Func ''lens_merge_tables''
              [(''layerIds'', [ArgText ''L1'', ArgText ''L2'']),
               (''tables'', [ArgTree (Ast [Func ''B'' []]), ArgTree (Ast [Func ''C'' []])])],
            Func ''A'' []]))"
  by (simp add: prependDatasourceExpression_def sampleMap_def sampleStates_def readState_def
      sampleDatasource_def parseExpression_def sampleParser_def datafetchExpression_def)


section \<open>What the result depends on\<close>

lemma prependDatasourceExpression_same:
  assumes "statesReadable datasourceMap' datasourceStates = statesReadable datasourceMap datasourceStates"
    and "contributedLayers datasourceMap' datasourceStates = contributedLayers datasourceMap datasourceStates"
  shows "prependDatasourceExpression fromExpression visualizationExpression datasourceMap' datasourceStates
       = prependDatasourceExpression fromExpression visualizationExpression datasourceMap datasourceStates"
  by (simp add: prependDatasourceExpression_def forEachDatasource_eq assms)

lemma statesReadable_map:
  "statesReadable (map (\<lambda>(datasourceId, datasource). (datasourceId, f datasource)) datasourceMap)
     datasourceStates = statesReadable datasourceMap datasourceStates"
  by (simp add: statesReadable_def list_all_iff case_prod_beta)

lemma contributedLayers_map:
  assumes "\<And>datasource st. layerExpressions (f datasource) st = layerExpressions datasource st"
  shows "contributedLayers (map (\<lambda>(datasourceId, datasource). (datasourceId, f datasource))
            datasourceMap) datasourceStates
       = contributedLayers datasourceMap datasourceStates"
  by (induction datasourceMap) (auto simp: contributedLayers_def assms split: sum.splits)

lemma map_filter_filter:
  "(\<And>x. \<not> P x \<Longrightarrow> f x = None) \<Longrightarrow> List.map_filter f (filter P xs) = List.map_filter f xs"
  by (induction xs) (auto simp: List.map_filter_simps split: option.splits)

lemma layerExpressions_withoutAbsentLayers:
  "layerExpressions (withoutAbsentLayers datasource) st = layerExpressions datasource st"
  unfolding layerExpressions_def withoutAbsentLayers_def
  by (simp, rule map_filter_filter) (simp split: option.splits)

lemma layerExpressions_emptyTextAsAbsent:
  "layerExpressions (emptyTextAsAbsent datasource) st = layerExpressions datasource st"
proof -
  have "(\<lambda>layerId. case (if toExpression datasource st layerId = Some (Text '''') then None
                          else toExpression datasource st layerId) of
                    None \<Rightarrow> None
                  | Some e \<Rightarrow> if e = Text '''' then None else Some (layerId, e))
      = (\<lambda>layerId. case toExpression datasource st layerId of
                    None \<Rightarrow> None
                  | Some e \<Rightarrow> if e = Text '''' then None else Some (layerId, e))"
    by (auto simp: fun_eq_iff)
  then show ?thesis
    by (simp add: layerExpressions_def emptyTextAsAbsent_def)
qed

lemma set_map_filter: "y \<in> set (List.map_filter f xs) \<longleftrightarrow> (\<exists>x \<in> set xs. f x = Some y)"
  by (induction xs) (auto simp: List.map_filter_simps split: option.splits)

lemma layerExpressions_iff:
  "(layerId, expr) \<in> set (layerExpressions datasource st) \<longleftrightarrow>
     layerId \<in> set (getLayers datasource st)
     \<and> toExpression datasource st layerId = Some expr \<and> expr \<noteq> Text ''''"
  by (auto simp: layerExpressions_def set_map_filter split: option.splits if_splits)

lemma contributedLayers_layerExpressions:
  "(layerId, expr) \<in> set (contributedLayers datasourceMap datasourceStates) \<longleftrightarrow>
     (\<exists>(datasourceId, datasource) \<in> set datasourceMap. \<exists>st.
        readState datasourceStates datasourceId = Inr st
        \<and> (layerId, expr) \<in> set (layerExpressions datasource st))"
  by (force simp: contributedLayers_def split: sum.splits)

lemma no_empty_text_contributed:
  "(layerId, Text '''') \<notin> set (contributedLayers datasourceMap datasourceStates)"
  by (simp add: contributedLayers_layerExpressions layerExpressions_iff case_prod_beta)

lemma parseExpression_agree:
  assumes "\<And>s. s \<noteq> '''' \<Longrightarrow> fromExpression' s = fromExpression s"
    and "expr \<noteq> Text ''''"
  shows "parseExpression fromExpression' expr = parseExpression fromExpression expr"
  using assms by (cases expr) (simp_all add: parseExpression_def)

lemma parseDatasourceExpressions_agree:
  assumes "\<And>s. s \<noteq> '''' \<Longrightarrow> fromExpression' s = fromExpression s"
  shows "(\<And>layerId. (layerId, Text '''') \<notin> set pairs) \<Longrightarrow>
   parseDatasourceExpressions fromExpression' pairs
     = parseDatasourceExpressions fromExpression pairs"
proof (induction pairs)
  case Nil
  show ?case by simp
next
  case (Cons x xs)
  obtain layerId expr where x: "x = (layerId, expr)" by (cases x)
  from Cons.prems [of layerId] have "expr \<noteq> Text ''''" by (auto simp: x)
  then have "parseExpression fromExpression' expr = parseExpression fromExpression expr"
    by (intro parseExpression_agree assms)
  moreover have "parseDatasourceExpressions fromExpression' xs
     = parseDatasourceExpressions fromExpression xs"
    using Cons.prems by (intro Cons.IH) auto
  ultimately show ?case by (simp add: x cong: sum.case_cong)
qed

section \<open>The heap functions compute what the functions on values compute\<close>

lemma lookup_append:
  "lookup h r = Some obj \<Longrightarrow> lookup (h @ tl_objs) r = Some obj"
  by (auto simp: lookup_def nth_append split: if_splits)

lemma lookup_update:
  "lookup h a = Some old \<Longrightarrow>
   lookup (h[a := obj]) r = (if r = a then Some obj else lookup h r)"
  by (auto simp: lookup_def split: if_splits)

lemma update_same: "lookup h a = Some obj \<Longrightarrow> h[a := obj] = h"
  by (auto simp: lookup_def split: if_splits)

lemma push_array:
  "lookup h a = Some (ArrayObject xs) \<Longrightarrow> push a x h = h[a := ArrayObject (xs @ [x])]"
  by (simp add: push_def)

lemma exprValue_truthy:
  "exprAllocated h expr \<Longrightarrow> truthy (exprValue h expr) = truthyRef expr"
  by (cases expr rule: truthyRef.cases)
     (auto simp: exprValue_def exprAllocated_def split: option.splits object.splits)

lemma exprValue_None:
  "exprAllocated h expr \<Longrightarrow> exprValue h expr = None \<longleftrightarrow> expr = None"
  by (cases expr rule: truthyRef.cases)
     (auto simp: exprValue_def exprAllocated_def split: option.splits object.splits)

lemma getLayers_datasourceAt: "getLayers (datasourceAt h datasource) = getLayers datasource"
  by (simp add: datasourceAt_def)

text \<open>
  The pairs of the local array stand for the pairs of the loop on values when each
  reference leads, in the heap the call started from, to the tree of the value.
\<close>

lemma forEachLayer_heap_array:
  assumes "\<And>layerId. exprAllocated h0 (toExpression datasource st layerId)"
  shows "lookup h a = Some (ArrayObject xs) \<Longrightarrow>
   list_all2 (\<lambda>(layerId, r) (layerId', v). layerId' = layerId \<and> exprValue h0 (Some r) = Some v)
     xs vals \<Longrightarrow>
   \<exists>ys. forEachLayer_heap datasource st layers a h = h[a := ArrayObject ys]
     \<and> list_all2 (\<lambda>(layerId, r) (layerId', v). layerId' = layerId \<and> exprValue h0 (Some r) = Some v)
          ys (forEachLayer (datasourceAt h0 datasource) st layers vals)"
proof (induction layers arbitrary: h xs vals)
  case Nil
  then show ?case
    by (intro exI [of _ xs]) (simp add: update_same)
next
  case (Cons layerId layers)
  let ?r = "toExpression datasource st layerId"
  have v: "toExpression (datasourceAt h0 datasource) st layerId = exprValue h0 ?r"
    by (simp add: datasourceAt_def)
  have t: "truthy (exprValue h0 ?r) = truthyRef ?r"
    by (rule exprValue_truthy) (rule assms)
  show ?case
  proof (cases "truthyRef ?r")
    case False
    with Cons.IH [OF Cons.prems] t v show ?thesis
      by (auto simp: Let_def split: option.splits)
  next
    case True
    then obtain r where r: "?r = Some r" by (cases ?r) auto
    from True t obtain val where val: "exprValue h0 (Some r) = Some val"
      unfolding r by (cases "exprValue h0 (Some r)") auto
    have a: "lookup (h[a := ArrayObject (xs @ [(layerId, r)])]) a
        = Some (ArrayObject (xs @ [(layerId, r)]))"
      using Cons.prems(1) by (simp add: lookup_update)
    have rel: "list_all2 (\<lambda>(layerId, r) (layerId', v). layerId' = layerId
          \<and> exprValue h0 (Some r) = Some v) (xs @ [(layerId, r)]) (vals @ [(layerId, val)])"
      using Cons.prems(2) val by (simp add: list_all2_appendI)
    from Cons.IH [OF a rel] obtain ys
      where "forEachLayer_heap datasource st layers a (h[a := ArrayObject (xs @ [(layerId, r)])])
          = h[a := ArrayObject ys]"
        and "list_all2 (\<lambda>(layerId, r) (layerId', v). layerId' = layerId
          \<and> exprValue h0 (Some r) = Some v) ys
          (forEachLayer (datasourceAt h0 datasource) st layers (vals @ [(layerId, val)]))"
      by auto
    with True t r val v Cons.prems(1) show ?thesis
      by (intro exI [of _ ys]) (simp add: push_array)
  qed
qed

lemma forEachDatasource_heap_array:
  assumes al: "\<forall>(datasourceId, datasource) \<in> set entries.
           \<forall>st layerId. exprAllocated h0 (toExpression datasource st layerId)"
    and "lookup h statesRef = Some (StatesObject states)"
    and "lookup h a = Some (ArrayObject xs)"
    and "list_all2 (\<lambda>(layerId, r) (layerId', v). layerId' = layerId
          \<and> exprValue h0 (Some r) = Some v) xs vals"
  shows "\<exists>ys. snd (forEachDatasource_heap entries statesRef a h) = h[a := ArrayObject ys]
     \<and> (case fst (forEachDatasource_heap entries statesRef a h) of
          None \<Rightarrow>
            (\<exists>vals'. forEachDatasource
                 (map (\<lambda>(datasourceId, datasource). (datasourceId, datasourceAt h0 datasource))
                    entries) states vals = Inr vals'
               \<and> list_all2 (\<lambda>(layerId, r) (layerId', v). layerId' = layerId
                    \<and> exprValue h0 (Some r) = Some v) ys vals')
        | Some e \<Rightarrow>
            forEachDatasource
              (map (\<lambda>(datasourceId, datasource). (datasourceId, datasourceAt h0 datasource))
                 entries) states vals = Inl e)"
  using assms
proof (induction entries arbitrary: h xs vals)
  case Nil
  then show ?case
    by (intro exI [of _ xs]) (simp add: update_same)
next
  case (Cons entry entries)
  obtain datasourceId datasource where entry: "entry = (datasourceId, datasource)"
    by (cases entry)
  show ?case
  proof (cases "readState states datasourceId")
    case (Inl e)
    with Cons.prems show ?thesis
      by (intro exI [of _ xs]) (simp add: entry update_same)
  next
    case (Inr st)
    from Cons.prems(1) have one: "\<And>layerId. exprAllocated h0 (toExpression datasource st layerId)"
      and rest: "\<forall>(datasourceId, datasource) \<in> set entries.
           \<forall>st layerId. exprAllocated h0 (toExpression datasource st layerId)"
      by (auto simp: entry)
    from forEachLayer_heap_array [of h0 datasource st h a xs vals "getLayers datasource st",
        OF one Cons.prems(3,4)]
    obtain zs where h: "forEachLayer_heap datasource st (getLayers datasource st) a h
          = h[a := ArrayObject zs]"
      and rel: "list_all2 (\<lambda>(layerId, r) (layerId', v). layerId' = layerId
          \<and> exprValue h0 (Some r) = Some v) zs
          (forEachLayer (datasourceAt h0 datasource) st (getLayers datasource st) vals)"
      by blast
    let ?h = "h[a := ArrayObject zs]"
    from Cons.prems(2,3) have ne: "statesRef \<noteq> a" by auto
    with Cons.prems(2,3) have s: "lookup ?h statesRef = Some (StatesObject states)"
      and a: "lookup ?h a = Some (ArrayObject zs)"
      by (simp_all add: lookup_update)
    from Cons.IH [OF rest s a rel] obtain ys
      where "snd (forEachDatasource_heap entries statesRef a ?h) = ?h[a := ArrayObject ys]"
        and "case fst (forEachDatasource_heap entries statesRef a ?h) of
          None \<Rightarrow>
            (\<exists>vals'. forEachDatasource
                 (map (\<lambda>(datasourceId, datasource). (datasourceId, datasourceAt h0 datasource))
                    entries) states
                 (forEachLayer (datasourceAt h0 datasource) st (getLayers datasource st) vals)
                 = Inr vals'
               \<and> list_all2 (\<lambda>(layerId, r) (layerId', v). layerId' = layerId
                    \<and> exprValue h0 (Some r) = Some v) ys vals')
        | Some e \<Rightarrow>
            forEachDatasource
              (map (\<lambda>(datasourceId, datasource). (datasourceId, datasourceAt h0 datasource))
                 entries) states
              (forEachLayer (datasourceAt h0 datasource) st (getLayers datasource st) vals)
              = Inl e"
      by blast
    with Inr h Cons.prems(2) show ?thesis
      by (intro exI [of _ ys])
         (auto simp: entry getLayers_datasourceAt split: option.splits)
  qed
qed

lemma parseExprRef_value:
  assumes "exprValue h (Some expr) = Some v"
  shows "parseExprRef fromExpression (h @ tl_objs) expr = parseExpression fromExpression v"
proof (cases expr)
  case (TextVal s)
  with assms show ?thesis
    by (auto simp: parseExprRef_def parseExpression_def exprValue_def)
next
  case (TreeRef r)
  with assms obtain t where t: "lookup h r = Some (TreeObject t)" and v: "v = Tree t"
    by (auto simp: exprValue_def split: option.splits object.splits)
  from lookup_append [OF t, of tl_objs] v show ?thesis
    by (simp add: TreeRef parseExprRef_def parseExpression_def)
qed

lemma parseDatasourceExpressions_heap_value:
  "list_all2 (\<lambda>(layerId, r) (layerId', v). layerId' = layerId \<and> exprValue h (Some r) = Some v)
     ys vals \<Longrightarrow>
   parseDatasourceExpressions_heap fromExpression (h @ tl_objs) ys
     = parseDatasourceExpressions fromExpression vals"
proof (induction ys arbitrary: vals)
  case Nil
  then show ?case by simp
next
  case (Cons y ys)
  obtain layerId r where y: "y = (layerId, r)" by (cases y)
  from Cons.prems obtain v rest where vals: "vals = (layerId, v) # rest"
    and v: "exprValue h (Some r) = Some v"
    and rest: "list_all2 (\<lambda>(layerId, r) (layerId', v). layerId' = layerId
        \<and> exprValue h (Some r) = Some v) ys rest"
    by (cases vals) (auto simp: y)
  from Cons.IH [OF rest] parseExprRef_value [OF v, of fromExpression tl_objs]
  show ?case by (simp add: y vals cong: sum.case_cong)
qed

lemma resultValue_alloc:
  "resultValue (h @ [TreeObject t]) (Inr (Some (length h))) = Inr (Some t)"
  by (simp add: resultValue_def lookup_def)

lemma prependDatasourceExpression_heap_value:
  assumes m: "lookup h mapRef = Some (MapObject entries)"
    and s: "lookup h statesRef = Some (StatesObject states)"
    and v: "exprAllocated h visualizationExpression"
    and al: "\<forall>(datasourceId, datasource) \<in> set entries.
           \<forall>st layerId. exprAllocated h (toExpression datasource st layerId)"
  shows "\<exists>tl_objs.
     snd (prependDatasourceExpression_heap fromExpression visualizationExpression mapRef
            statesRef h) = h @ tl_objs
     \<and> resultValue
         (snd (prependDatasourceExpression_heap fromExpression visualizationExpression mapRef
                 statesRef h))
         (fst (prependDatasourceExpression_heap fromExpression visualizationExpression mapRef
                 statesRef h))
       = prependDatasourceExpression fromExpression (exprValue h visualizationExpression)
           (map (\<lambda>(datasourceId, datasource). (datasourceId, datasourceAt h datasource))
              entries) states
     \<and> (\<forall>merged.
           fst (prependDatasourceExpression_heap fromExpression visualizationExpression mapRef
                  statesRef h) = Inr merged
           \<longrightarrow> exprAllocated
                 (snd (prependDatasourceExpression_heap fromExpression visualizationExpression
                         mapRef statesRef h))
                 (map_option TreeRef merged)
               \<and> (\<forall>r. merged = Some r \<longrightarrow> length h \<le> r))"
proof -
  let ?R = "prependDatasourceExpression_heap fromExpression visualizationExpression mapRef
      statesRef h"
  let ?dsMap = "map (\<lambda>(datasourceId, datasource). (datasourceId, datasourceAt h datasource))
      entries"
  let ?pure = "prependDatasourceExpression fromExpression
      (exprValue h visualizationExpression) ?dsMap states"
  let ?loop = "forEachDatasource_heap entries statesRef (length h) (h @ [ArrayObject []])"
  have s1: "lookup (h @ [ArrayObject []]) statesRef = Some (StatesObject states)"
    using s by (rule lookup_append)
  have a1: "lookup (h @ [ArrayObject []]) (length h) = Some (ArrayObject [])"
    by (simp add: lookup_def)
  have rel0: "list_all2 (\<lambda>(layerId, r) (layerId', v). layerId' = layerId
      \<and> exprValue h (Some r) = Some v) [] []"
    by simp
  from forEachDatasource_heap_array [OF al s1 a1 rel0] obtain ys
    where h2: "snd ?loop = h @ [ArrayObject ys]"
      and r: "case fst ?loop of
          None \<Rightarrow>
            (\<exists>vals'. forEachDatasource ?dsMap states [] = Inr vals'
               \<and> list_all2 (\<lambda>(layerId, r) (layerId', v). layerId' = layerId
                    \<and> exprValue h (Some r) = Some v) ys vals')
        | Some e \<Rightarrow> forEachDatasource ?dsMap states [] = Inl e"
    by auto
  have m1: "lookup (h @ [ArrayObject []]) mapRef = Some (MapObject entries)"
    using m by (rule lookup_append)
  have a: "lookup (h @ [ArrayObject ys]) (length h) = Some (ArrayObject ys)"
    by (simp add: lookup_def)
  have fail: ?thesis if "?R = (Inl e, h @ [ArrayObject ys])" and "?pure = Inl e" for e
    using that by (intro exI [of _ "[ArrayObject ys]"]) (simp add: resultValue_def)
  have null: ?thesis if "?R = (Inr None, h @ [ArrayObject ys])" and "?pure = Inr None"
    using that
    by (intro exI [of _ "[ArrayObject ys]"]) (simp add: resultValue_def exprAllocated_def)
  show ?thesis
  proof (cases "fst ?loop")
    case (Some e)
    with r have "forEachDatasource ?dsMap states [] = Inl e" by simp
    then have "?pure = Inl e" by (simp add: prependDatasourceExpression_def)
    moreover from Some h2 have "?loop = (Some e, h @ [ArrayObject ys])"
      by (simp add: prod_eq_iff)
    then have "?R = (Inl e, h @ [ArrayObject ys])"
      by (simp add: prependDatasourceExpression_heap_def alloc_def m1)
    ultimately show ?thesis by (intro fail)
  next
    case None
    with r obtain vals where pure: "forEachDatasource ?dsMap states [] = Inr vals"
      and rel: "list_all2 (\<lambda>(layerId, r) (layerId', v). layerId' = layerId
                    \<and> exprValue h (Some r) = Some v) ys vals"
      by auto
    from rel have len: "length ys = length vals" by (rule list_all2_lengthD)
    from None h2 have loop: "?loop = (None, h @ [ArrayObject ys])"
      by (simp add: prod_eq_iff)
    have parse: "parseDatasourceExpressions_heap fromExpression (h @ [ArrayObject ys]) ys
        = parseDatasourceExpressions fromExpression vals"
      using rel by (rule parseDatasourceExpressions_heap_value)
    show ?thesis
    proof (cases "length ys = 0 \<or> visualizationExpression = None")
      case True
      with loop a have "?R = (Inr None, h @ [ArrayObject ys])"
        by (simp add: prependDatasourceExpression_heap_def alloc_def m1)
      moreover from True pure len have "?pure = Inr None"
        by (auto simp: prependDatasourceExpression_def exprValue_def)
      ultimately show ?thesis by (intro null)
    next
      case False
      then obtain visExpr where ve: "visualizationExpression = Some visExpr" and ne: "ys \<noteq> []"
        by auto
      from ne len have nv: "vals \<noteq> []" by auto
      from v ve have "exprValue h (Some visExpr) \<noteq> None"
        by (simp add: exprValue_None)
      then obtain val where val: "exprValue h (Some visExpr) = Some val" by blast
      have p: "parseExprRef fromExpression (h @ [ArrayObject ys]) visExpr
          = parseExpression fromExpression val"
        using val by (rule parseExprRef_value)
      show ?thesis
      proof (cases "parseDatasourceExpressions fromExpression vals")
        case (Inl e)
        with loop a ne ve parse have "?R = (Inl e, h @ [ArrayObject ys])"
          by (simp add: prependDatasourceExpression_heap_def alloc_def m1)
        moreover from Inl pure nv ve val have "?pure = Inl e"
          by (simp add: prependDatasourceExpression_def)
        ultimately show ?thesis by (intro fail)
      next
        case parsed: (Inr parsed)
        show ?thesis
        proof (cases "parseExpression fromExpression val")
          case (Inl e)
          with loop a ne ve p parsed parse have "?R = (Inl e, h @ [ArrayObject ys])"
            by (simp add: prependDatasourceExpression_heap_def alloc_def m1)
          moreover from Inl pure nv ve val parsed have "?pure = Inl e"
            by (simp add: prependDatasourceExpression_def)
          ultimately show ?thesis by (intro fail)
        next
          case (Inr visAst)
          let ?t = "Ast (datafetchExpression parsed # chain visAst)"
          from Inr loop a ne ve p parsed parse
          have "?R = (Inr (Some (Suc (length h))), h @ [ArrayObject ys, TreeObject ?t])"
            by (simp add: prependDatasourceExpression_heap_def alloc_def m1)
          moreover from Inr pure nv ve val parsed have "?pure = Inr (Some ?t)"
            by (simp add: prependDatasourceExpression_def)
          ultimately show ?thesis
            by (intro exI [of _ "[ArrayObject ys, TreeObject ?t]"])
               (simp add: resultValue_def exprAllocated_def lookup_def nth_append)
        qed
      qed
    qed
  qed
qed

lemma prependKibanaContext_heap_value:
  assumes v: "exprAllocated h expression"
  shows "\<exists>tl_objs.
     snd (prependKibanaContext_heap fromExpression JSON_stringify expression ctx h) = h @ tl_objs
     \<and> resultValue
         (snd (prependKibanaContext_heap fromExpression JSON_stringify expression ctx h))
         (fst (prependKibanaContext_heap fromExpression JSON_stringify expression ctx h))
       = prependKibanaContext fromExpression JSON_stringify (exprValue h expression) ctx
     \<and> (\<forall>r. fst (prependKibanaContext_heap fromExpression JSON_stringify expression ctx h)
              = Inr (Some r) \<longrightarrow> length h \<le> r)"
proof (cases "truthyRef expression")
  case False
  with exprValue_truthy [OF v] show ?thesis
    by (intro exI [of _ "[]"])
       (simp add: prependKibanaContext_heap_def prependKibanaContext_def resultValue_def)
next
  case True
  then obtain expr where e: "expression = Some expr" by (cases expression) auto
  from True exprValue_truthy [OF v] have t: "truthy (exprValue h expression)" by simp
  then obtain val where val: "exprValue h (Some expr) = Some val"
    unfolding e by (cases "exprValue h (Some expr)") auto
  have p: "parseExprRef fromExpression h expr = parseExpression fromExpression val"
    using parseExprRef_value [OF val, of fromExpression "[]"] by simp
  show ?thesis
  proof (cases "parseExpression fromExpression val")
    case (Inl err)
    with True t p val show ?thesis
      by (intro exI [of _ "[]"])
         (simp add: prependKibanaContext_heap_def prependKibanaContext_def resultValue_def e)
  next
    case (Inr parsed)
    let ?t = "Ast ([Func ''kibana'' [],
                 Func ''kibana_context''
                   [(''timeRange'', contextArgument JSON_stringify (timeRange ctx)),
                    (''query'', contextArgument JSON_stringify (query ctx)),
                    (''filters'', contextArgument JSON_stringify (filters ctx))]]
                @ chain parsed)"
    from Inr True t p val resultValue_alloc [of h ?t] show ?thesis
      by (intro exI [of _ "[TreeObject ?t]"])
         (simp add: prependKibanaContext_heap_def prependKibanaContext_def alloc_def e)
  qed
qed

lemma exprValue_append:
  "exprAllocated h expr \<Longrightarrow> exprValue (h @ tl_objs) expr = exprValue h expr"
  by (cases expr rule: truthyRef.cases)
     (auto simp: exprValue_def exprAllocated_def lookup_def nth_append
           split: option.splits object.splits if_splits)

lemma exprAllocated_append:
  "exprAllocated h expr \<Longrightarrow> exprAllocated (h @ tl_objs) expr"
  by (cases expr rule: truthyRef.cases)
     (auto simp: exprAllocated_def lookup_def nth_append
           split: option.splits object.splits if_splits)

lemma datasourceAt_append:
  "(\<And>st layerId. exprAllocated h (toExpression datasource st layerId)) \<Longrightarrow>
   datasourceAt (h @ tl_objs) datasource = datasourceAt h datasource"
  by (simp add: datasourceAt_def exprValue_append)

lemma exprValue_merged:
  assumes "exprAllocated h (map_option TreeRef merged)"
    and "resultValue h (Inr merged) = Inr x"
  shows "exprValue h (map_option TreeRef merged) = map_option Tree x"
  using assms
  by (cases merged)
     (auto simp: resultValue_def exprAllocated_def exprValue_def
       split: option.splits object.splits)

lemma resultValue_not_Inl:
  assumes "exprAllocated h (map_option TreeRef merged)"
  shows "resultValue h (Inr merged) \<noteq> Inl e"
  using assms
  by (cases merged)
     (auto simp: resultValue_def exprAllocated_def split: option.splits object.splits)

lemma buildExpression_heap_value:
  assumes m: "lookup h mapRef = Some (MapObject entries)"
    and s: "lookup h statesRef = Some (StatesObject states)"
    and al: "\<forall>(datasourceId, datasource) \<in> set entries.
           \<forall>st layerId. exprAllocated h (toExpression datasource st layerId)"
    and v: "\<forall>vis. visualization = Some vis \<longrightarrow>
           exprAllocated h (vis_toExpression vis visualizationState framePublicAPI)"
  shows "\<exists>tl_objs.
     snd (buildExpression_heap fromExpression JSON_stringify visualization visualizationState
            mapRef statesRef framePublicAPI h) = h @ tl_objs
     \<and> resultValue
         (snd (buildExpression_heap fromExpression JSON_stringify visualization
                 visualizationState mapRef statesRef framePublicAPI h))
         (fst (buildExpression_heap fromExpression JSON_stringify visualization
                 visualizationState mapRef statesRef framePublicAPI h))
       = buildExpression fromExpression JSON_stringify
           (map_option (visualizationAt h) visualization) visualizationState
           (map (\<lambda>(datasourceId, datasource). (datasourceId, datasourceAt h datasource))
              entries) states framePublicAPI
     \<and> (\<forall>r. fst (buildExpression_heap fromExpression JSON_stringify visualization
                 visualizationState mapRef statesRef framePublicAPI h) = Inr (Some r)
           \<longrightarrow> length h \<le> r)"
proof (cases visualization)
  case None
  then show ?thesis
    by (intro exI [of _ "[]"])
       (simp add: buildExpression_heap_def buildExpression_def resultValue_def)
next
  case (Some vis)
  let ?ve = "vis_toExpression vis visualizationState framePublicAPI"
  let ?dsMap = "map (\<lambda>(datasourceId, datasource). (datasourceId, datasourceAt h datasource))
      entries"
  from v Some have al_v: "exprAllocated h ?ve" by simp
  have val: "vis_toExpression (visualizationAt h vis) visualizationState framePublicAPI
      = exprValue h ?ve"
    by (simp add: visualizationAt_def)
  let ?P = "prependDatasourceExpression_heap fromExpression ?ve mapRef statesRef h"
  let ?pureP = "prependDatasourceExpression fromExpression (exprValue h ?ve) ?dsMap states"
  from prependDatasourceExpression_heap_value [OF m s al_v al, of fromExpression]
  obtain tl2 where h2: "snd ?P = h @ tl2"
    and r2: "resultValue (snd ?P) (fst ?P) = ?pureP"
    and a2: "\<And>merged. fst ?P = Inr merged
       \<Longrightarrow> exprAllocated (snd ?P) (map_option TreeRef merged)"
    by auto
  have unfold: "buildExpression_heap fromExpression JSON_stringify visualization
      visualizationState mapRef statesRef framePublicAPI h
    = (case ?P of
         (Inl e, h2) \<Rightarrow> (Inl e, h2)
       | (Inr merged, h2) \<Rightarrow>
           prependKibanaContext_heap fromExpression JSON_stringify (map_option TreeRef merged)
             \<lparr>timeRange = None, query = None, filters = None\<rparr> h2)"
    by (simp add: buildExpression_heap_def Some)
  have pure: "buildExpression fromExpression JSON_stringify
           (map_option (visualizationAt h) visualization) visualizationState ?dsMap states
           framePublicAPI
    = (case ?pureP of
         Inl e \<Rightarrow> Inl e
       | Inr merged \<Rightarrow>
           prependKibanaContext fromExpression JSON_stringify (map_option Tree merged)
             \<lparr>timeRange = None, query = None, filters = None\<rparr>)"
    by (simp add: buildExpression_def Some val)
  show ?thesis
  proof (cases "fst ?P")
    case (Inl e)
    then have P: "?P = (Inl e, snd ?P)" by (simp add: prod_eq_iff)
    from r2 Inl have "?pureP = Inl e" by (simp add: resultValue_def)
    moreover have "buildExpression_heap fromExpression JSON_stringify visualization
      visualizationState mapRef statesRef framePublicAPI h = (Inl e, snd ?P)"
      unfolding unfold by (subst P) simp
    ultimately show ?thesis
      using h2 by (intro exI [of _ tl2]) (simp add: pure resultValue_def)
  next
    case (Inr merged)
    then have P: "?P = (Inr merged, snd ?P)" by (simp add: prod_eq_iff)
    from a2 [OF Inr]
    have al2: "exprAllocated (snd ?P) (map_option TreeRef merged)" .
    from resultValue_not_Inl [OF al2] r2 Inr
    obtain x where x: "?pureP = Inr x"
      by (cases ?pureP) auto
    with r2 Inr have "resultValue (snd ?P) (Inr merged) = Inr x" by simp
    from exprValue_merged [OF al2 this]
    have ev: "exprValue (snd ?P) (map_option TreeRef merged) = map_option Tree x" .
    let ?K = "prependKibanaContext_heap fromExpression JSON_stringify
        (map_option TreeRef merged) \<lparr>timeRange = None, query = None, filters = None\<rparr> (snd ?P)"
    from prependKibanaContext_heap_value [OF al2, of fromExpression JSON_stringify
        "\<lparr>timeRange = None, query = None, filters = None\<rparr>"] ev
    obtain tl3 where h3: "snd ?K = snd ?P @ tl3"
      and r3: "resultValue (snd ?K) (fst ?K)
        = prependKibanaContext fromExpression JSON_stringify (map_option Tree x)
            \<lparr>timeRange = None, query = None, filters = None\<rparr>"
      and f3: "\<And>r. fst ?K = Inr (Some r) \<Longrightarrow> length (snd ?P) \<le> r"
      by auto
    have K: "buildExpression_heap fromExpression JSON_stringify visualization
      visualizationState mapRef statesRef framePublicAPI h = ?K"
      unfolding unfold by (subst P) simp
    from h3 h2 have h3': "snd ?K = h @ tl2 @ tl3" by simp
    have fresh: "length h \<le> r" if "fst ?K = Inr (Some r)" for r
      using f3 [OF that] h2 by simp
    from K h3' r3 x fresh show ?thesis
      by (intro exI [of _ "tl2 @ tl3"]) (simp add: pure)
  qed
qed

section \<open>The empty text is falsy\<close>

text \<open>
  C9. Given the empty text as its expression, \<^verbatim>\<open>prependKibanaContext\<close> returns
  \<^verbatim>\<open>null\<close>, which is also what it returns for an absent expression: the parser is not
  asked and no context node is built, whatever the context parameters are.
\<close>

theorem prependKibanaContext_empty_text:
  "prependKibanaContext fromExpression JSON_stringify (Some (Text '''')) ctx = Inr None
   \<and> prependKibanaContext fromExpression JSON_stringify (Some (Text '''')) ctx
       = prependKibanaContext fromExpression JSON_stringify None ctx"
  by (simp add: prependKibanaContext_def)

section \<open>The context nodes\<close>




section \<open>The composition, step by step\<close>



section \<open>The orchestration is the composition\<close>



section \<open>Layers with the empty text\<close>

text \<open>
  C10. A layer whose expression is the empty text is skipped as a layer without an
  expression is: the result of \<^verbatim>\<open>prependDatasourceExpression\<close> is the one it has when
  the data sources report no expression in place of the empty text; the empty text of a
  layer is never parsed, since the result is the same with any parser that differs on the
  empty text only (the visualization expression being another one); and no pair collected
  by the loops has the empty text.
\<close>

theorem empty_text_layers_skipped:
  "prependDatasourceExpression fromExpression visualizationExpression
     (map (\<lambda>(datasourceId, datasource). (datasourceId, emptyTextAsAbsent datasource))
        datasourceMap) datasourceStates
     = prependDatasourceExpression fromExpression visualizationExpression datasourceMap
         datasourceStates
   \<and> (visualizationExpression \<noteq> Some (Text '''')
        \<and> (\<forall>s. s \<noteq> '''' \<longrightarrow> fromExpression' s = fromExpression s) \<longrightarrow>
        prependDatasourceExpression fromExpression' visualizationExpression
          datasourceMap datasourceStates
        = prependDatasourceExpression fromExpression visualizationExpression datasourceMap
            datasourceStates)
   \<and> (\<forall>pairs layerId. forEachDatasource datasourceMap datasourceStates [] = Inr pairs
          \<longrightarrow> (layerId, Text '''') \<notin> set pairs)"
proof (intro conjI impI allI)
  show "prependDatasourceExpression fromExpression visualizationExpression
     (map (\<lambda>(datasourceId, datasource). (datasourceId, emptyTextAsAbsent datasource))
        datasourceMap) datasourceStates
     = prependDatasourceExpression fromExpression visualizationExpression datasourceMap
         datasourceStates"
    by (intro prependDatasourceExpression_same statesReadable_map contributedLayers_map
        layerExpressions_emptyTextAsAbsent)
next
  assume "visualizationExpression \<noteq> Some (Text '''')
        \<and> (\<forall>s. s \<noteq> '''' \<longrightarrow> fromExpression' s = fromExpression s)"
  then have v: "visualizationExpression \<noteq> Some (Text '''')"
    and agree: "\<And>s. s \<noteq> '''' \<Longrightarrow> fromExpression' s = fromExpression s"
    by simp_all
  have p: "parseDatasourceExpressions fromExpression'
             (contributedLayers datasourceMap datasourceStates)
         = parseDatasourceExpressions fromExpression
             (contributedLayers datasourceMap datasourceStates)"
    by (rule parseDatasourceExpressions_agree) (simp_all add: agree no_empty_text_contributed)
  from v have "parseExpression fromExpression' visExpr
      = parseExpression fromExpression visExpr" if "visualizationExpression = Some visExpr"
    for visExpr
    using that by (intro parseExpression_agree agree) auto
  with p show "prependDatasourceExpression fromExpression' visualizationExpression
          datasourceMap datasourceStates
        = prependDatasourceExpression fromExpression visualizationExpression datasourceMap
            datasourceStates"
    by (simp add: prependDatasourceExpression_def forEachDatasource_eq
          cong: sum.case_cong option.case_cong if_cong)
next
  fix pairs layerId
  assume "forEachDatasource datasourceMap datasourceStates [] = Inr pairs"
  then have "pairs = contributedLayers datasourceMap datasourceStates"
    by (simp add: forEachDatasource_eq split: if_splits)
  then show "(layerId, Text '''') \<notin> set pairs"
    by (simp add: no_empty_text_contributed)
qed

theorem empty_text_layers_skipped_witness:
  "toExpression sampleDatasource (Value [''L1'', ''L0'', ''L2'', ''L3'']) ''L3'' = Some (Text '''')
   \<and> toExpression (emptyTextAsAbsent sampleDatasource) (Value [''L1'', ''L0'', ''L2'', ''L3'']) ''L3''
       = None
   \<and> prependDatasourceExpression sampleParser (Some (Text ''A''))
       [(''ds1'', emptyTextAsAbsent sampleDatasource)] sampleStates
     = Inr (Some (Ast
           [Func ''lens_merge_tables''
              [(''layerIds'', [ArgText ''L1'', ArgText ''L2'']),
               (''tables'', [ArgTree (Ast [Func ''B'' []]), ArgTree (Ast [Func ''C'' []])])],
            Func ''A'' []]))
   \<and> strictParser '''' = None
   \<and> prependDatasourceExpression strictParser (Some (Text ''A'')) sampleMap sampleStates
     = Inr (Some (Ast
           [Func ''lens_merge_tables''
              [(''layerIds'', [ArgText ''L1'', ArgText ''L2'']),
               (''tables'', [ArgTree (Ast [Func ''B'' []]), ArgTree (Ast [Func ''C'' []])])],
            Func ''A'' []]))
   \<and> forEachDatasource sampleMap sampleStates []
     = Inr [(''L1'', Text ''B''), (''L2'', Tree (Ast [Func ''C'' []]))]"
proof -
  have t: "toExpression sampleDatasource (Value [''L1'', ''L0'', ''L2'', ''L3'']) ''L3'' = Some (Text '''')"
    "toExpression (emptyTextAsAbsent sampleDatasource) (Value [''L1'', ''L0'', ''L2'', ''L3'']) ''L3''
       = None"
    by (simp_all add: emptyTextAsAbsent_def sampleDatasource_def)
  have m: "map (\<lambda>(datasourceId, datasource). (datasourceId, emptyTextAsAbsent datasource))
        sampleMap = [(''ds1'', emptyTextAsAbsent sampleDatasource)]"
    by (simp add: sampleMap_def)
  have s: "strictParser '''' = None"
    and agree: "\<forall>s. s \<noteq> '''' \<longrightarrow> strictParser s = sampleParser s"
    by (simp_all add: strictParser_def)
  have f: "forEachDatasource sampleMap sampleStates []
     = Inr [(''L1'', Text ''B''), (''L2'', Tree (Ast [Func ''C'' []]))]"
    by (simp add: forEachDatasource_eq sample_readable sample_contributed)
  note skipped = empty_text_layers_skipped
    [of sampleParser "Some (Text ''A'')" sampleMap sampleStates strictParser]
  from skipped [THEN conjunct1]
  have a: "prependDatasourceExpression sampleParser (Some (Text ''A''))
       [(''ds1'', emptyTextAsAbsent sampleDatasource)] sampleStates
     = prependDatasourceExpression sampleParser (Some (Text ''A'')) sampleMap sampleStates"
    by (simp only: m)
  from skipped [THEN conjunct2, THEN conjunct1] agree
  have b: "prependDatasourceExpression strictParser (Some (Text ''A'')) sampleMap sampleStates
     = prependDatasourceExpression sampleParser (Some (Text ''A'')) sampleMap sampleStates"
    by simp
  from t a b s f sample_merged show ?thesis by simp
qed

section \<open>The merge node\<close>

text \<open>
  C1, as stated, fails on two inputs that have a visualization expression and a contributed
  layer expression. In the first the data source \<^verbatim>\<open>ds1\<close> contributes two layer expressions
  and the state map has no entry for the next data source \<^verbatim>\<open>ds2\<close>: the call throws a
  \<^verbatim>\<open>TypeError\<close>. In the second the contributed expression is a text the parser rejects:
  the call ends with the parser's error. Neither returns a tree.
\<close>

theorem prependDatasourceExpression_merge_node_counterexample:
  "forEachLayer sampleDatasource (Value [''L1'', ''L0'', ''L2'', ''L3''])
       [''L1'', ''L0'', ''L2'', ''L3''] []
     = [(''L1'', Text ''B''), (''L2'', Tree (Ast [Func ''C'' []]))]
   \<and> readState sampleStates ''ds2'' = Inl TypeError
   \<and> prependDatasourceExpression sampleParser (Some (Text ''A''))
       [(''ds1'', sampleDatasource), (''ds2'', sampleDatasource)] sampleStates
     = Inl TypeError
   \<and> forEachLayer sampleDatasource (Value [''L4'']) [''L4''] [] = [(''L4'', Text ''?'')]
   \<and> sampleParser ''?'' = None
   \<and> prependDatasourceExpression sampleParser (Some (Text ''A'')) sampleMap
       [''ds1'' \<mapsto> \<lparr>isLoading = False, state = Value [''L4'']\<rparr>]
     = Inl (ParseError ''?'')"
  by (simp add: prependDatasourceExpression_def readState_def sampleStates_def
      sampleDatasource_def sampleMap_def sampleParser_def parseExpression_def
      objectPrototypeProperties_def)

text \<open>
  C1, amended. On an input in which the visualization expression is present, at least one
  layer expression is contributed, the state map yields a value for every identifier of the
  data-source map, and the external parser accepts every text among the contributed layer
  expressions and the visualization expression, \<^verbatim>\<open>prependDatasourceExpression\<close> returns a
  tree whose first node is \<^verbatim>\<open>lens_merge_tables\<close> with two sequences of equal length: the
  identifiers of the contributed layers, in the order of the data-source map and then of
  each data source's layers, and at the same index the tree of that layer's expression,
  which is the tree itself or, for a text, the tree \<^verbatim>\<open>fromExpression\<close> gives for it; the
  nodes of the visualization's chain follow in order.
\<close>

theorem prependDatasourceExpression_merge_node:
  assumes "statesReadable datasourceMap datasourceStates"
    and "contributedLayers datasourceMap datasourceStates \<noteq> []"
    and "case visExpr of Tree t \<Rightarrow> visAst = t | Text s \<Rightarrow> fromExpression s = Some visAst"
    and "\<forall>(layerId, expr) \<in> set (contributedLayers datasourceMap datasourceStates).
           \<forall>s. expr = Text s \<longrightarrow> fromExpression s \<noteq> None"
  shows "\<exists>tables.
     prependDatasourceExpression fromExpression (Some visExpr) datasourceMap datasourceStates
       = Inr (Some (Ast (Func ''lens_merge_tables''
               [(''layerIds'', map ArgText (map fst (contributedLayers datasourceMap datasourceStates))),
                (''tables'', map ArgTree tables)]
             # chain visAst)))
     \<and> length tables = length (contributedLayers datasourceMap datasourceStates)
     \<and> (\<forall>i < length (contributedLayers datasourceMap datasourceStates).
           case snd (contributedLayers datasourceMap datasourceStates ! i) of
             Tree t \<Rightarrow> tables ! i = t
           | Text s \<Rightarrow> fromExpression s = Some (tables ! i))"
proof -
  from parseDatasourceExpressions_total [OF assms(4)]
  obtain parsed where parsed:
    "parseDatasourceExpressions fromExpression
       (contributedLayers datasourceMap datasourceStates) = Inr parsed"
    by blast
  from assms(3) have "parseExpression fromExpression visExpr = Inr visAst"
    by (cases visExpr) (simp_all add: parseExpression_def)
  then have "prependDatasourceExpression fromExpression (Some visExpr) datasourceMap
        datasourceStates
      = Inr (Some (Ast (datafetchExpression parsed # chain visAst)))"
    using assms(2) parsed by (simp add: prependDatasourceExpression_readable [OF assms(1)])
  with datafetchExpression_parsed [OF parsed] show ?thesis
    by (intro exI [of _ "map snd parsed"]) simp
qed

theorem prependDatasourceExpression_merge_node_witness:
  "statesReadable sampleMap sampleStates
   \<and> contributedLayers sampleMap sampleStates
       = [(''L1'', Text ''B''), (''L2'', Tree (Ast [Func ''C'' []]))]
   \<and> sampleParser ''A'' = Some (Ast [Func ''A'' []])
   \<and> sampleParser ''B'' = Some (Ast [Func ''B'' []])
   \<and> prependDatasourceExpression sampleParser (Some (Text ''A'')) sampleMap sampleStates
       = Inr (Some (Ast
           [Func ''lens_merge_tables''
              [(''layerIds'', [ArgText ''L1'', ArgText ''L2'']),
               (''tables'', [ArgTree (Ast [Func ''B'' []]), ArgTree (Ast [Func ''C'' []])])],
            Func ''A'' []]))"
proof -
  have a: "sampleParser ''A'' = Some (Ast [Func ''A'' []])"
    and b: "sampleParser ''B'' = Some (Ast [Func ''B'' []])"
    by (simp_all add: sampleParser_def)
  have vis: "case Text ''A'' of Tree t \<Rightarrow> Ast [Func ''A'' []] = t
             | Text s \<Rightarrow> sampleParser s = Some (Ast [Func ''A'' []])"
    by (simp add: a)
  have ne: "contributedLayers sampleMap sampleStates \<noteq> []"
    by (simp add: sample_contributed)
  have ok: "\<forall>(layerId, expr) \<in> set (contributedLayers sampleMap sampleStates).
           \<forall>s. expr = Text s \<longrightarrow> sampleParser s \<noteq> None"
    by (simp add: sample_contributed b)
  from prependDatasourceExpression_merge_node [OF sample_readable ne vis ok]
  obtain tables where res:
    "prependDatasourceExpression sampleParser (Some (Text ''A'')) sampleMap sampleStates
       = Inr (Some (Ast (Func ''lens_merge_tables''
               [(''layerIds'', map ArgText (map fst (contributedLayers sampleMap sampleStates))),
                (''tables'', map ArgTree tables)]
             # chain (Ast [Func ''A'' []]))))"
    and len: "length tables = length (contributedLayers sampleMap sampleStates)"
    and nth: "\<forall>i < length (contributedLayers sampleMap sampleStates).
           case snd (contributedLayers sampleMap sampleStates ! i) of
             Tree t \<Rightarrow> tables ! i = t
           | Text s \<Rightarrow> sampleParser s = Some (tables ! i)"
    by blast
  from len obtain t0 t1 where tables: "tables = [t0, t1]"
    by (cases tables; cases "tl tables") (auto simp: sample_contributed)
  from nth [rule_format, of 0] nth [rule_format, of 1]
  have "sampleParser ''B'' = Some t0" and "t1 = Ast [Func ''C'' []]"
    by (simp_all add: sample_contributed tables)
  with b have "t0 = Ast [Func ''B'' []]" and "t1 = Ast [Func ''C'' []]"
    by simp_all
  with res tables have "prependDatasourceExpression sampleParser (Some (Text ''A'')) sampleMap
      sampleStates
       = Inr (Some (Ast
           [Func ''lens_merge_tables''
              [(''layerIds'', [ArgText ''L1'', ArgText ''L2'']),
               (''tables'', [ArgTree (Ast [Func ''B'' []]), ArgTree (Ast [Func ''C'' []])])],
            Func ''A'' []]))"
    by (simp add: sample_contributed)
  moreover have "prependDatasourceExpression sampleParser (Some (Text ''A'')) sampleMap
      sampleStates
       = Inr (Some (Ast
           [Func ''lens_merge_tables''
              [(''layerIds'', [ArgText ''L1'', ArgText ''L2'']),
               (''tables'', [ArgTree (Ast [Func ''B'' []]), ArgTree (Ast [Func ''C'' []])])],
            Func ''A'' []]))"
    by (simp add: prependDatasourceExpression_def sampleMap_def sampleStates_def readState_def
        sampleDatasource_def parseExpression_def sampleParser_def datafetchExpression_def)
  ultimately show ?thesis
    using sample_readable a b by (simp add: sample_contributed)
qed

section \<open>All or nothing\<close>

text \<open>
  C2, as stated, fails where the state map has no entry for a data source of the map: with
  the visualization expression absent the call throws a \<^verbatim>\<open>TypeError\<close> at the read of line
  27, before the test of line 38, and does not return \<^verbatim>\<open>null\<close>.
\<close>

theorem prependDatasourceExpression_all_or_nothing_counterexample:
  "readState sampleStates ''ds2'' = Inl TypeError
   \<and> prependDatasourceExpression sampleParser None [(''ds2'', sampleDatasource)] sampleStates
       = Inl TypeError
   \<and> prependDatasourceExpression sampleParser None [(''ds2'', sampleDatasource)] sampleStates
       \<noteq> Inr None"
  by (simp add: prependDatasourceExpression_def readState_def sampleStates_def
      objectPrototypeProperties_def)

text \<open>
  C2, amended. On every input in which the state map yields a value for every identifier of
  the data-source map, \<^verbatim>\<open>prependDatasourceExpression\<close> returns \<^verbatim>\<open>null\<close> if the
  visualization expression is absent or no layer expression was contributed. And on every
  input a tree it returns is never partial: the visualization expression is present, a
  layer expression was contributed, and the tree is the merge node over all the contributed
  layers, each with its tree, followed by the whole chain of the visualization.
\<close>

theorem prependDatasourceExpression_all_or_nothing:
  "(statesReadable datasourceMap datasourceStates
      \<and> (visualizationExpression = None
           \<or> contributedLayers datasourceMap datasourceStates = [])
            \<longrightarrow> prependDatasourceExpression fromExpression visualizationExpression
                   datasourceMap datasourceStates = Inr None)
     \<and> (\<forall>tree. prependDatasourceExpression fromExpression visualizationExpression
                   datasourceMap datasourceStates = Inr (Some tree) \<longrightarrow>
           (\<exists>visExpr visAst tables.
              visualizationExpression = Some visExpr
              \<and> (case visExpr of
                    Tree t \<Rightarrow> visAst = t
                  | Text s \<Rightarrow> fromExpression s = Some visAst)
              \<and> contributedLayers datasourceMap datasourceStates \<noteq> []
              \<and> tree = Ast (Func ''lens_merge_tables''
                   [(''layerIds'',
                     map ArgText (map fst (contributedLayers datasourceMap datasourceStates))),
                    (''tables'', map ArgTree tables)]
                   # chain visAst)
              \<and> length tables = length (contributedLayers datasourceMap datasourceStates)
              \<and> (\<forall>i < length (contributedLayers datasourceMap datasourceStates).
                    case snd (contributedLayers datasourceMap datasourceStates ! i) of
                      Tree t \<Rightarrow> tables ! i = t
                    | Text s \<Rightarrow> fromExpression s = Some (tables ! i))))"
proof (intro conjI allI impI)
  assume "statesReadable datasourceMap datasourceStates
      \<and> (visualizationExpression = None
           \<or> contributedLayers datasourceMap datasourceStates = [])"
  then show "prependDatasourceExpression fromExpression visualizationExpression
                   datasourceMap datasourceStates = Inr None"
    by (auto simp: prependDatasourceExpression_readable)
next
  fix tree
  assume res: "prependDatasourceExpression fromExpression visualizationExpression
                   datasourceMap datasourceStates = Inr (Some tree)"
  have readable: "statesReadable datasourceMap datasourceStates"
  proof (rule ccontr)
    assume "\<not> statesReadable datasourceMap datasourceStates"
    from prependDatasourceExpression_unreadable [OF this] res show False by simp
  qed
  let ?pairs = "contributedLayers datasourceMap datasourceStates"
  from res have ne: "?pairs \<noteq> []" and "visualizationExpression \<noteq> None"
    by (auto simp: prependDatasourceExpression_readable [OF readable] split: if_splits)
  then obtain visExpr where vis: "visualizationExpression = Some visExpr" by blast
  from res ne vis obtain parsed visAst
    where parsed: "parseDatasourceExpressions fromExpression ?pairs = Inr parsed"
      and visAst: "parseExpression fromExpression visExpr = Inr visAst"
      and tree: "tree = Ast (datafetchExpression parsed # chain visAst)"
    by (auto simp: prependDatasourceExpression_readable [OF readable] split: sum.splits)
  from visAst have "case visExpr of
                    Tree t \<Rightarrow> visAst = t
                  | Text s \<Rightarrow> fromExpression s = Some visAst"
    by (cases visExpr) (auto simp: parseExpression_def split: option.splits)
  with datafetchExpression_parsed [OF parsed] vis ne tree
  show "\<exists>visExpr visAst tables.
              visualizationExpression = Some visExpr
              \<and> (case visExpr of
                    Tree t \<Rightarrow> visAst = t
                  | Text s \<Rightarrow> fromExpression s = Some visAst)
              \<and> ?pairs \<noteq> []
              \<and> tree = Ast (Func ''lens_merge_tables''
                   [(''layerIds'', map ArgText (map fst ?pairs)),
                    (''tables'', map ArgTree tables)]
                   # chain visAst)
              \<and> length tables = length ?pairs
              \<and> (\<forall>i < length ?pairs.
                    case snd (?pairs ! i) of
                      Tree t \<Rightarrow> tables ! i = t
                    | Text s \<Rightarrow> fromExpression s = Some (tables ! i))"
    by (intro exI [of _ visExpr] exI [of _ visAst] exI [of _ "map snd parsed"]) simp
qed

theorem prependDatasourceExpression_all_or_nothing_witness:
  "statesReadable sampleMap sampleStates
   \<and> prependDatasourceExpression sampleParser None sampleMap sampleStates = Inr None
   \<and> statesReadable [] sampleStates
   \<and> contributedLayers [] sampleStates = []
   \<and> prependDatasourceExpression sampleParser (Some (Text ''A'')) [] sampleStates = Inr None
   \<and> prependDatasourceExpression sampleParser (Some (Text ''A'')) sampleMap sampleStates
       = Inr (Some (Ast
           [Func ''lens_merge_tables''
              [(''layerIds'', [ArgText ''L1'', ArgText ''L2'']),
               (''tables'', [ArgTree (Ast [Func ''B'' []]), ArgTree (Ast [Func ''C'' []])])],
            Func ''A'' []]))
   \<and> contributedLayers sampleMap sampleStates \<noteq> []"
proof -
  have e: "statesReadable [] sampleStates" "contributedLayers [] sampleStates = []"
    by (simp_all add: statesReadable_def contributedLayers_def)
  from prependDatasourceExpression_all_or_nothing
         [of sampleMap sampleStates None sampleParser, THEN conjunct1]
    sample_readable
  have n1: "prependDatasourceExpression sampleParser None sampleMap sampleStates = Inr None"
    by simp
  from prependDatasourceExpression_all_or_nothing
         [of "[]" sampleStates "Some (Text ''A'')" sampleParser, THEN conjunct1] e
  have n2: "prependDatasourceExpression sampleParser (Some (Text ''A'')) [] sampleStates
      = Inr None"
    by simp
  from prependDatasourceExpression_all_or_nothing
         [of sampleMap sampleStates "Some (Text ''A'')" sampleParser, THEN conjunct2,
          rule_format, OF sample_merged]
  have ne: "contributedLayers sampleMap sampleStates \<noteq> []"
    by blast
  from n1 n2 ne e sample_readable sample_merged show ?thesis by simp
qed


section \<open>Errors\<close>




lemma contributedLayers_withExpression:
  "contributedLayers datasourceMap datasourceStates
     = withExpression (requestedLayers datasourceMap datasourceStates)"
  by (simp add: contributedLayers_requested withExpression_def)

lemma sample_requested:
  "requestedLayers sampleMap sampleStates
     = [(''L1'', Some (Text ''B'')), (''L0'', None),
        (''L2'', Some (Tree (Ast [Func ''C'' []]))), (''L3'', Some (Text ''''))]"
  by (simp add: requestedLayers_def sampleMap_def sampleStates_def readState_def
      sampleDatasource_def)

section \<open>Layers without an expression\<close>

text \<open>
  C7, as stated, fails when the state map has no entry for a data source that comes before
  another one: \<^verbatim>\<open>ds1\<close> is in the map and reports the layer \<^verbatim>\<open>L1\<close>, which has an
  expression, but the loop ends with the \<^verbatim>\<open>TypeError\<close> of \<^verbatim>\<open>ds0\<close> before \<^verbatim>\<open>ds1\<close> is
  reached, so no layer of \<^verbatim>\<open>ds1\<close> is asked for its expression and no merge node has an
  entry for it.
\<close>

theorem absent_layers_skipped_counterexample:
  "readState sampleStates ''ds0'' = Inl TypeError
   \<and> readState sampleStates ''ds1'' = Inr (Value [''L1'', ''L0'', ''L2'', ''L3''])
   \<and> getLayers sampleDatasource (Value [''L1'', ''L0'', ''L2'', ''L3''])
       = [''L1'', ''L0'', ''L2'', ''L3'']
   \<and> toExpression sampleDatasource (Value [''L1'', ''L0'', ''L2'', ''L3'']) ''L1''
       = Some (Text ''B'')
   \<and> forEachDatasource [(''ds0'', sampleDatasource), (''ds1'', sampleDatasource)]
       sampleStates [] = Inl TypeError
   \<and> prependDatasourceExpression sampleParser (Some (Text ''A''))
       [(''ds0'', sampleDatasource), (''ds1'', sampleDatasource)] sampleStates
     = Inl TypeError"
  by (simp add: prependDatasourceExpression_def readState_def sampleStates_def
      sampleDatasource_def objectPrototypeProperties_def)

text \<open>
  C7, amended. On every input in which the state map yields a value for every identifier of
  the data-source map: for every data source in the map and every layer it reports via
  \<^verbatim>\<open>getLayers\<close>, \<^verbatim>\<open>prependDatasourceExpression\<close> requests that layer's expression via
  \<^verbatim>\<open>toExpression\<close>; a layer for which the data source reports no expression contributes
  no entry to the merge node's sequences and causes no error, and the remaining layers'
  entries are unaffected. In the embedding the capabilities are functions, so a request
  shows in the answer that is used: the loops end without an error with exactly the
  requests that were answered with an expression, in the order of the requests; when there
  is a merge node, its two sequences are these layers and their trees, index for index; and
  the result is the one the call has when the layers without an expression are not reported
  at all. (The empty text counts as no expression, see C10.)
\<close>

theorem absent_layers_skipped:
  assumes "statesReadable datasourceMap datasourceStates"
  shows "forEachDatasource datasourceMap datasourceStates []
       = Inr (withExpression (requestedLayers datasourceMap datasourceStates))
     \<and> (\<forall>visExpr visAst.
           (case visExpr of Tree t \<Rightarrow> visAst = t | Text s \<Rightarrow> fromExpression s = Some visAst)
           \<and> withExpression (requestedLayers datasourceMap datasourceStates) \<noteq> []
           \<and> (\<forall>(layerId, expr) \<in> set (withExpression
                    (requestedLayers datasourceMap datasourceStates)).
                 \<forall>s. expr = Text s \<longrightarrow> fromExpression s \<noteq> None)
           \<longrightarrow> (\<exists>tables.
                 prependDatasourceExpression fromExpression (Some visExpr) datasourceMap
                   datasourceStates
                 = Inr (Some (Ast (Func ''lens_merge_tables''
                     [(''layerIds'',
                       map ArgText (map fst (withExpression
                         (requestedLayers datasourceMap datasourceStates)))),
                      (''tables'', map ArgTree tables)]
                     # chain visAst)))
                 \<and> length tables
                     = length (withExpression (requestedLayers datasourceMap datasourceStates))
                 \<and> (\<forall>i < length (withExpression
                          (requestedLayers datasourceMap datasourceStates)).
                       case snd (withExpression
                              (requestedLayers datasourceMap datasourceStates) ! i) of
                         Tree t \<Rightarrow> tables ! i = t
                       | Text s \<Rightarrow> fromExpression s = Some (tables ! i))))
     \<and> prependDatasourceExpression fromExpression visualizationExpression
         (map (\<lambda>(datasourceId, datasource). (datasourceId, withoutAbsentLayers datasource))
            datasourceMap) datasourceStates
       = prependDatasourceExpression fromExpression visualizationExpression datasourceMap
           datasourceStates"
proof (intro conjI allI impI)
  show "forEachDatasource datasourceMap datasourceStates []
       = Inr (withExpression (requestedLayers datasourceMap datasourceStates))"
    using forEachDatasource_readable [OF assms, of "[]"]
    by (simp add: contributedLayers_withExpression)
next
  fix visExpr visAst
  let ?kept = "withExpression (requestedLayers datasourceMap datasourceStates)"
  assume a: "(case visExpr of Tree t \<Rightarrow> visAst = t | Text s \<Rightarrow> fromExpression s = Some visAst)
           \<and> ?kept \<noteq> []
           \<and> (\<forall>(layerId, expr) \<in> set ?kept. \<forall>s. expr = Text s \<longrightarrow> fromExpression s \<noteq> None)"
  then have "\<forall>(layerId, expr) \<in> set ?kept. \<forall>s. expr = Text s \<longrightarrow> fromExpression s \<noteq> None"
    by simp
  from parseDatasourceExpressions_total [OF this]
  obtain parsed where parsed: "parseDatasourceExpressions fromExpression ?kept = Inr parsed"
    by blast
  from a have "parseExpression fromExpression visExpr = Inr visAst"
    by (cases visExpr) (simp_all add: parseExpression_def)
  with a parsed have "prependDatasourceExpression fromExpression (Some visExpr) datasourceMap
        datasourceStates
      = Inr (Some (Ast (datafetchExpression parsed # chain visAst)))"
    by (simp add: prependDatasourceExpression_readable [OF assms]
        contributedLayers_withExpression)
  with datafetchExpression_parsed [OF parsed]
  show "\<exists>tables.
                 prependDatasourceExpression fromExpression (Some visExpr) datasourceMap
                   datasourceStates
                 = Inr (Some (Ast (Func ''lens_merge_tables''
                     [(''layerIds'', map ArgText (map fst ?kept)),
                      (''tables'', map ArgTree tables)]
                     # chain visAst)))
                 \<and> length tables = length ?kept
                 \<and> (\<forall>i < length ?kept.
                       case snd (?kept ! i) of
                         Tree t \<Rightarrow> tables ! i = t
                       | Text s \<Rightarrow> fromExpression s = Some (tables ! i))"
    by (intro exI [of _ "map snd parsed"]) simp
next
  show "prependDatasourceExpression fromExpression visualizationExpression
         (map (\<lambda>(datasourceId, datasource). (datasourceId, withoutAbsentLayers datasource))
            datasourceMap) datasourceStates
       = prependDatasourceExpression fromExpression visualizationExpression datasourceMap
           datasourceStates"
    by (intro prependDatasourceExpression_same statesReadable_map contributedLayers_map
        layerExpressions_withoutAbsentLayers)
qed

theorem absent_layers_skipped_witness:
  "statesReadable sampleMap sampleStates
   \<and> requestedLayers sampleMap sampleStates
       = [(''L1'', Some (Text ''B'')), (''L0'', None),
          (''L2'', Some (Tree (Ast [Func ''C'' []]))), (''L3'', Some (Text ''''))]
   \<and> forEachDatasource sampleMap sampleStates []
       = Inr [(''L1'', Text ''B''), (''L2'', Tree (Ast [Func ''C'' []]))]
   \<and> sampleParser ''A'' = Some (Ast [Func ''A'' []])
   \<and> sampleParser ''B'' = Some (Ast [Func ''B'' []])
   \<and> prependDatasourceExpression sampleParser (Some (Text ''A'')) sampleMap sampleStates
       = Inr (Some (Ast
           [Func ''lens_merge_tables''
              [(''layerIds'', [ArgText ''L1'', ArgText ''L2'']),
               (''tables'', [ArgTree (Ast [Func ''B'' []]), ArgTree (Ast [Func ''C'' []])])],
            Func ''A'' []]))
   \<and> getLayers (withoutAbsentLayers sampleDatasource) (Value [''L1'', ''L0'', ''L2'', ''L3''])
       = [''L1'', ''L2'', ''L3'']
   \<and> prependDatasourceExpression sampleParser (Some (Text ''A''))
       [(''ds1'', withoutAbsentLayers sampleDatasource)] sampleStates
     = Inr (Some (Ast
           [Func ''lens_merge_tables''
              [(''layerIds'', [ArgText ''L1'', ArgText ''L2'']),
               (''tables'', [ArgTree (Ast [Func ''B'' []]), ArgTree (Ast [Func ''C'' []])])],
            Func ''A'' []]))"
proof -
  let ?kept = "withExpression (requestedLayers sampleMap sampleStates)"
  have a: "sampleParser ''A'' = Some (Ast [Func ''A'' []])"
    and b: "sampleParser ''B'' = Some (Ast [Func ''B'' []])"
    by (simp_all add: sampleParser_def)
  have kept: "?kept = [(''L1'', Text ''B''), (''L2'', Tree (Ast [Func ''C'' []]))]"
    by (simp add: sample_requested withExpression_def List.map_filter_simps)
  note skipped = absent_layers_skipped [OF sample_readable, of sampleParser "Some (Text ''A'')"]
  from skipped [THEN conjunct1]
  have loop: "forEachDatasource sampleMap sampleStates []
       = Inr [(''L1'', Text ''B''), (''L2'', Tree (Ast [Func ''C'' []]))]"
    by (simp add: kept)
  have pre: "(case Text ''A'' of Tree t \<Rightarrow> Ast [Func ''A'' []] = t
              | Text s \<Rightarrow> sampleParser s = Some (Ast [Func ''A'' []]))
           \<and> ?kept \<noteq> []
           \<and> (\<forall>(layerId, expr) \<in> set ?kept. \<forall>s. expr = Text s \<longrightarrow> sampleParser s \<noteq> None)"
    by (simp add: kept a b)
  from skipped [THEN conjunct2, THEN conjunct1, rule_format, OF pre]
  obtain tables where res:
    "prependDatasourceExpression sampleParser (Some (Text ''A'')) sampleMap sampleStates
       = Inr (Some (Ast (Func ''lens_merge_tables''
               [(''layerIds'', map ArgText (map fst ?kept)), (''tables'', map ArgTree tables)]
             # chain (Ast [Func ''A'' []]))))"
    and len: "length tables = length ?kept"
    and nth: "\<forall>i < length ?kept.
           case snd (?kept ! i) of
             Tree t \<Rightarrow> tables ! i = t
           | Text s \<Rightarrow> sampleParser s = Some (tables ! i)"
    by blast
  from len obtain t0 t1 where tables: "tables = [t0, t1]"
    by (cases tables; cases "tl tables") (auto simp: kept)
  from nth [rule_format, of 0] nth [rule_format, of 1]
  have "sampleParser ''B'' = Some t0" and "t1 = Ast [Func ''C'' []]"
    by (simp_all add: kept tables)
  with b have "t0 = Ast [Func ''B'' []]" and "t1 = Ast [Func ''C'' []]"
    by simp_all
  with res tables have tree:
    "prependDatasourceExpression sampleParser (Some (Text ''A'')) sampleMap sampleStates
       = Inr (Some (Ast
           [Func ''lens_merge_tables''
              [(''layerIds'', [ArgText ''L1'', ArgText ''L2'']),
               (''tables'', [ArgTree (Ast [Func ''B'' []]), ArgTree (Ast [Func ''C'' []])])],
            Func ''A'' []]))"
    by (simp add: kept)
  have direct:
    "prependDatasourceExpression sampleParser (Some (Text ''A'')) sampleMap sampleStates
       = Inr (Some (Ast
           [Func ''lens_merge_tables''
              [(''layerIds'', [ArgText ''L1'', ArgText ''L2'']),
               (''tables'', [ArgTree (Ast [Func ''B'' []]), ArgTree (Ast [Func ''C'' []])])],
            Func ''A'' []]))"
    "forEachDatasource sampleMap sampleStates []
       = Inr [(''L1'', Text ''B''), (''L2'', Tree (Ast [Func ''C'' []]))]"
    by (simp_all add: prependDatasourceExpression_def sampleMap_def sampleStates_def
        readState_def sampleDatasource_def parseExpression_def sampleParser_def
        datafetchExpression_def)
  have g: "getLayers (withoutAbsentLayers sampleDatasource)
       (Value [''L1'', ''L0'', ''L2'', ''L3'']) = [''L1'', ''L2'', ''L3'']"
    by (simp add: withoutAbsentLayers_def sampleDatasource_def)
  have m: "map (\<lambda>(datasourceId, datasource). (datasourceId, withoutAbsentLayers datasource))
        sampleMap = [(''ds1'', withoutAbsentLayers sampleDatasource)]"
    by (simp add: sampleMap_def)
  from skipped [THEN conjunct2, THEN conjunct2]
  have "prependDatasourceExpression sampleParser (Some (Text ''A''))
       [(''ds1'', withoutAbsentLayers sampleDatasource)] sampleStates
     = prependDatasourceExpression sampleParser (Some (Text ''A'')) sampleMap sampleStates"
    by (simp only: m)
  with tree loop direct g a b sample_readable sample_requested show ?thesis by simp
qed

section \<open>Nothing is changed\<close>

text \<open>
  C8. \<^verbatim>\<open>buildExpression\<close> has no side effect and is deterministic. The heap holds the
  data-source map, the state map, and the trees that the visualization and the data
  sources hand out, which behave as functions. A call leaves every object that existed
  before it as it was: it only adds objects at new addresses, and the one array it changes
  in place is its own new one. So the two maps and every input tree are unchanged, and a
  tree that is returned is a new object. The value of the result is what the function
  \<open>buildExpression\<close> gives for the contents of the two maps and the trees as they were
  before the call; and a second call with the same arguments, made on the heap the first
  one left, has a result of equal value.
\<close>

theorem buildExpression_changes_nothing:
  assumes "lookup h datasourceMap = Some (MapObject entries)"
    and "lookup h datasourceStates = Some (StatesObject states)"
    and "\<forall>(datasourceId, datasource) \<in> set entries.
           \<forall>st layerId. exprAllocated h (toExpression datasource st layerId)"
    and "\<forall>vis. visualization = Some vis \<longrightarrow>
           exprAllocated h (vis_toExpression vis visualizationState framePublicAPI)"
    and "buildExpression_heap fromExpression JSON_stringify visualization visualizationState
           datasourceMap datasourceStates framePublicAPI h = (res, h')"
    and "buildExpression_heap fromExpression JSON_stringify visualization visualizationState
           datasourceMap datasourceStates framePublicAPI h' = (res2, h'')"
  shows "take (length h) h' = h
     \<and> (\<forall>r obj. lookup h r = Some obj \<longrightarrow> lookup h' r = Some obj)
     \<and> (\<forall>r. res = Inr (Some r) \<longrightarrow> length h \<le> r)
     \<and> resultValue h' res
         = buildExpression fromExpression JSON_stringify
             (map_option (visualizationAt h) visualization) visualizationState
             (map (\<lambda>(datasourceId, datasource). (datasourceId, datasourceAt h datasource))
                entries) states framePublicAPI
     \<and> resultValue h'' res2 = resultValue h' res"
proof -
  let ?dsMap = "\<lambda>h. map (\<lambda>(datasourceId, datasource). (datasourceId, datasourceAt h datasource))
      entries"
  from buildExpression_heap_value [OF assms(1-4), of fromExpression JSON_stringify] assms(5)
  obtain tl_objs where h': "h' = h @ tl_objs"
    and r: "resultValue h' res
         = buildExpression fromExpression JSON_stringify
             (map_option (visualizationAt h) visualization) visualizationState
             (?dsMap h) states framePublicAPI"
    and fresh: "\<forall>r. res = Inr (Some r) \<longrightarrow> length h \<le> r"
    by auto
  have m: "lookup h' datasourceMap = Some (MapObject entries)"
    and s: "lookup h' datasourceStates = Some (StatesObject states)"
    unfolding h' using assms(1,2) by (simp_all add: lookup_append)
  have al: "\<forall>(datasourceId, datasource) \<in> set entries.
           \<forall>st layerId. exprAllocated h' (toExpression datasource st layerId)"
    unfolding h'
  proof (intro ballI)
    fix x assume "x \<in> set entries"
    with assms(3) have "case x of (datasourceId, datasource) \<Rightarrow>
        \<forall>st layerId. exprAllocated h (toExpression datasource st layerId)"
      by blast
    then show "case x of (datasourceId, datasource) \<Rightarrow>
        \<forall>st layerId. exprAllocated (h @ tl_objs) (toExpression datasource st layerId)"
      by (cases x) (simp add: exprAllocated_append)
  qed
  have v: "\<forall>vis. visualization = Some vis \<longrightarrow>
           exprAllocated h' (vis_toExpression vis visualizationState framePublicAPI)"
    unfolding h' using assms(4) by (auto intro: exprAllocated_append)
  from buildExpression_heap_value [OF m s al v, of fromExpression JSON_stringify] assms(6)
  have r2: "resultValue h'' res2
         = buildExpression fromExpression JSON_stringify
             (map_option (visualizationAt h') visualization) visualizationState
             (?dsMap h') states framePublicAPI"
    by auto
  have same_ds: "?dsMap h' = ?dsMap h"
    unfolding h'
  proof (rule map_cong [OF refl])
    fix x assume "x \<in> set entries"
    with assms(3) have "case x of (datasourceId, datasource) \<Rightarrow>
        \<forall>st layerId. exprAllocated h (toExpression datasource st layerId)"
      by blast
    then show "(case x of (datasourceId, datasource) \<Rightarrow>
          (datasourceId, datasourceAt (h @ tl_objs) datasource))
        = (case x of (datasourceId, datasource) \<Rightarrow> (datasourceId, datasourceAt h datasource))"
      by (cases x) (simp add: datasourceAt_append)
  qed
  have same_vis: "vis_toExpression (visualizationAt h' vis) visualizationState framePublicAPI
      = vis_toExpression (visualizationAt h vis) visualizationState framePublicAPI"
    if "visualization = Some vis" for vis
    unfolding h' using assms(4) that by (simp add: visualizationAt_def exprValue_append)
  have "buildExpression fromExpression JSON_stringify
             (map_option (visualizationAt h') visualization) visualizationState
             (?dsMap h) states framePublicAPI
      = buildExpression fromExpression JSON_stringify
             (map_option (visualizationAt h) visualization) visualizationState
             (?dsMap h) states framePublicAPI"
    using same_vis by (cases visualization) (simp_all add: buildExpression_def)
  with r r2 same_ds have "resultValue h'' res2 = resultValue h' res" by simp
  moreover have "\<forall>r obj. lookup h r = Some obj \<longrightarrow> lookup h' r = Some obj"
    unfolding h' by (simp add: lookup_append)
  ultimately show ?thesis
    using h' r fresh by simp
qed

theorem buildExpression_changes_nothing_witness:
  "lookup sampleHeap 0 = Some (MapObject [(''ds1'', sampleDatasourceRef)])
   \<and> lookup sampleHeap 1 = Some (StatesObject sampleStates)
   \<and> lookup sampleHeap 2 = Some (TreeObject (Ast [Func ''A'' []]))
   \<and> lookup sampleHeap 3 = Some (TreeObject (Ast [Func ''C'' []]))
   \<and> vis_toExpression sampleVisualizationRef () () = Some (TreeRef 2)
   \<and> toExpression sampleDatasourceRef (Value [''L1'', ''L0'', ''L2'', ''L3'']) ''L2''
       = Some (TreeRef 3)
   \<and> buildExpression_heap sampleParser sampleStringify (Some sampleVisualizationRef) () 0 1 ()
       sampleHeap
     = (Inr (Some 6),
      (sampleHeap @
      [ArrayObject [(''L1'', TextVal ''B''), (''L2'', TreeRef 3)],
       TreeObject (Ast
           [Func ''lens_merge_tables''
              [(''layerIds'', [ArgText ''L1'', ArgText ''L2'']),
               (''tables'', [ArgTree (Ast [Func ''B'' []]), ArgTree (Ast [Func ''C'' []])])],
            Func ''A'' []]),
       TreeObject (Ast
           [Func ''kibana'' [],
            Func ''kibana_context'' [(''timeRange'', []), (''query'', []), (''filters'', [])],
            Func ''lens_merge_tables''
              [(''layerIds'', [ArgText ''L1'', ArgText ''L2'']),
               (''tables'', [ArgTree (Ast [Func ''B'' []]), ArgTree (Ast [Func ''C'' []])])],
            Func ''A'' []])]))
   \<and> take (length sampleHeap)
       (sampleHeap @
      [ArrayObject [(''L1'', TextVal ''B''), (''L2'', TreeRef 3)],
       TreeObject (Ast
           [Func ''lens_merge_tables''
              [(''layerIds'', [ArgText ''L1'', ArgText ''L2'']),
               (''tables'', [ArgTree (Ast [Func ''B'' []]), ArgTree (Ast [Func ''C'' []])])],
            Func ''A'' []]),
       TreeObject (Ast
           [Func ''kibana'' [],
            Func ''kibana_context'' [(''timeRange'', []), (''query'', []), (''filters'', [])],
            Func ''lens_merge_tables''
              [(''layerIds'', [ArgText ''L1'', ArgText ''L2'']),
               (''tables'', [ArgTree (Ast [Func ''B'' []]), ArgTree (Ast [Func ''C'' []])])],
            Func ''A'' []])])
     = sampleHeap
   \<and> lookup
       (sampleHeap @
      [ArrayObject [(''L1'', TextVal ''B''), (''L2'', TreeRef 3)],
       TreeObject (Ast
           [Func ''lens_merge_tables''
              [(''layerIds'', [ArgText ''L1'', ArgText ''L2'']),
               (''tables'', [ArgTree (Ast [Func ''B'' []]), ArgTree (Ast [Func ''C'' []])])],
            Func ''A'' []]),
       TreeObject (Ast
           [Func ''kibana'' [],
            Func ''kibana_context'' [(''timeRange'', []), (''query'', []), (''filters'', [])],
            Func ''lens_merge_tables''
              [(''layerIds'', [ArgText ''L1'', ArgText ''L2'']),
               (''tables'', [ArgTree (Ast [Func ''B'' []]), ArgTree (Ast [Func ''C'' []])])],
            Func ''A'' []])]) 2
     = Some (TreeObject (Ast [Func ''A'' []]))
   \<and> lookup
       (sampleHeap @
      [ArrayObject [(''L1'', TextVal ''B''), (''L2'', TreeRef 3)],
       TreeObject (Ast
           [Func ''lens_merge_tables''
              [(''layerIds'', [ArgText ''L1'', ArgText ''L2'']),
               (''tables'', [ArgTree (Ast [Func ''B'' []]), ArgTree (Ast [Func ''C'' []])])],
            Func ''A'' []]),
       TreeObject (Ast
           [Func ''kibana'' [],
            Func ''kibana_context'' [(''timeRange'', []), (''query'', []), (''filters'', [])],
            Func ''lens_merge_tables''
              [(''layerIds'', [ArgText ''L1'', ArgText ''L2'']),
               (''tables'', [ArgTree (Ast [Func ''B'' []]), ArgTree (Ast [Func ''C'' []])])],
            Func ''A'' []])]) 3
     = Some (TreeObject (Ast [Func ''C'' []]))
   \<and> resultValue
       (sampleHeap @
      [ArrayObject [(''L1'', TextVal ''B''), (''L2'', TreeRef 3)],
       TreeObject (Ast
           [Func ''lens_merge_tables''
              [(''layerIds'', [ArgText ''L1'', ArgText ''L2'']),
               (''tables'', [ArgTree (Ast [Func ''B'' []]), ArgTree (Ast [Func ''C'' []])])],
            Func ''A'' []]),
       TreeObject (Ast
           [Func ''kibana'' [],
            Func ''kibana_context'' [(''timeRange'', []), (''query'', []), (''filters'', [])],
            Func ''lens_merge_tables''
              [(''layerIds'', [ArgText ''L1'', ArgText ''L2'']),
               (''tables'', [ArgTree (Ast [Func ''B'' []]), ArgTree (Ast [Func ''C'' []])])],
            Func ''A'' []])])
       (Inr (Some 6))
     = Inr (Some (Ast
           [Func ''kibana'' [],
            Func ''kibana_context'' [(''timeRange'', []), (''query'', []), (''filters'', [])],
            Func ''lens_merge_tables''
              [(''layerIds'', [ArgText ''L1'', ArgText ''L2'']),
               (''tables'', [ArgTree (Ast [Func ''B'' []]), ArgTree (Ast [Func ''C'' []])])],
            Func ''A'' []]))
   \<and> resultValue
       (snd (buildExpression_heap sampleParser sampleStringify (Some sampleVisualizationRef)
               () 0 1 ()
          (sampleHeap @
      [ArrayObject [(''L1'', TextVal ''B''), (''L2'', TreeRef 3)],
       TreeObject (Ast
           [Func ''lens_merge_tables''
              [(''layerIds'', [ArgText ''L1'', ArgText ''L2'']),
               (''tables'', [ArgTree (Ast [Func ''B'' []]), ArgTree (Ast [Func ''C'' []])])],
            Func ''A'' []]),
       TreeObject (Ast
           [Func ''kibana'' [],
            Func ''kibana_context'' [(''timeRange'', []), (''query'', []), (''filters'', [])],
            Func ''lens_merge_tables''
              [(''layerIds'', [ArgText ''L1'', ArgText ''L2'']),
               (''tables'', [ArgTree (Ast [Func ''B'' []]), ArgTree (Ast [Func ''C'' []])])],
            Func ''A'' []])])))
       (fst (buildExpression_heap sampleParser sampleStringify (Some sampleVisualizationRef)
               () 0 1 ()
          (sampleHeap @
      [ArrayObject [(''L1'', TextVal ''B''), (''L2'', TreeRef 3)],
       TreeObject (Ast
           [Func ''lens_merge_tables''
              [(''layerIds'', [ArgText ''L1'', ArgText ''L2'']),
               (''tables'', [ArgTree (Ast [Func ''B'' []]), ArgTree (Ast [Func ''C'' []])])],
            Func ''A'' []]),
       TreeObject (Ast
           [Func ''kibana'' [],
            Func ''kibana_context'' [(''timeRange'', []), (''query'', []), (''filters'', [])],
            Func ''lens_merge_tables''
              [(''layerIds'', [ArgText ''L1'', ArgText ''L2'']),
               (''tables'', [ArgTree (Ast [Func ''B'' []]), ArgTree (Ast [Func ''C'' []])])],
            Func ''A'' []])])))
     = Inr (Some (Ast
           [Func ''kibana'' [],
            Func ''kibana_context'' [(''timeRange'', []), (''query'', []), (''filters'', [])],
            Func ''lens_merge_tables''
              [(''layerIds'', [ArgText ''L1'', ArgText ''L2'']),
               (''tables'', [ArgTree (Ast [Func ''B'' []]), ArgTree (Ast [Func ''C'' []])])],
            Func ''A'' []]))"
proof -
  let ?h1 = "(sampleHeap @
      [ArrayObject [(''L1'', TextVal ''B''), (''L2'', TreeRef 3)],
       TreeObject (Ast
           [Func ''lens_merge_tables''
              [(''layerIds'', [ArgText ''L1'', ArgText ''L2'']),
               (''tables'', [ArgTree (Ast [Func ''B'' []]), ArgTree (Ast [Func ''C'' []])])],
            Func ''A'' []]),
       TreeObject (Ast
           [Func ''kibana'' [],
            Func ''kibana_context'' [(''timeRange'', []), (''query'', []), (''filters'', [])],
            Func ''lens_merge_tables''
              [(''layerIds'', [ArgText ''L1'', ArgText ''L2'']),
               (''tables'', [ArgTree (Ast [Func ''B'' []]), ArgTree (Ast [Func ''C'' []])])],
            Func ''A'' []])])"
  let ?second = "buildExpression_heap sampleParser sampleStringify
      (Some sampleVisualizationRef) () 0 1 () ?h1"
  have m: "lookup sampleHeap 0 = Some (MapObject [(''ds1'', sampleDatasourceRef)])"
    and s: "lookup sampleHeap 1 = Some (StatesObject sampleStates)"
    and t2: "lookup sampleHeap 2 = Some (TreeObject (Ast [Func ''A'' []]))"
    and t3: "lookup sampleHeap 3 = Some (TreeObject (Ast [Func ''C'' []]))"
    by (simp_all add: lookup_def sampleHeap_def)
  have refs: "vis_toExpression sampleVisualizationRef () () = Some (TreeRef 2)"
    "toExpression sampleDatasourceRef (Value [''L1'', ''L0'', ''L2'', ''L3'']) ''L2''
       = Some (TreeRef 3)"
    by (simp_all add: sampleVisualizationRef_def sampleDatasourceRef_def)
  have al: "\<forall>(datasourceId, datasource) \<in> set [(''ds1'', sampleDatasourceRef)].
           \<forall>st layerId. exprAllocated sampleHeap (toExpression datasource st layerId)"
    by (simp add: exprAllocated_def sampleDatasourceRef_def t3)
  have v: "\<forall>vis. Some sampleVisualizationRef = Some vis \<longrightarrow>
           exprAllocated sampleHeap (vis_toExpression vis () ())"
    by (simp add: exprAllocated_def sampleVisualizationRef_def t2)
  have sample_run:
    "buildExpression_heap sampleParser sampleStringify (Some sampleVisualizationRef) () 0 1 ()
       sampleHeap
     = (Inr (Some 6),
        sampleHeap @
        [ArrayObject [(''L1'', TextVal ''B''), (''L2'', TreeRef 3)],
         TreeObject (Ast
             [Func ''lens_merge_tables''
                [(''layerIds'', [ArgText ''L1'', ArgText ''L2'']),
                 (''tables'', [ArgTree (Ast [Func ''B'' []]), ArgTree (Ast [Func ''C'' []])])],
              Func ''A'' []]),
         TreeObject (Ast
             [Func ''kibana'' [],
              Func ''kibana_context'' [(''timeRange'', []), (''query'', []), (''filters'', [])],
              Func ''lens_merge_tables''
                [(''layerIds'', [ArgText ''L1'', ArgText ''L2'']),
                 (''tables'', [ArgTree (Ast [Func ''B'' []]), ArgTree (Ast [Func ''C'' []])])],
              Func ''A'' []])])"
    by (simp add: buildExpression_heap_def sampleVisualizationRef_def sampleHeap_def
          prependDatasourceExpression_heap_def alloc_def lookup_def readState_def
          sampleStates_def sampleDatasourceRef_def push_def sampleParser_def
          datafetchExpression_def parseExprRef_def prependKibanaContext_heap_def
          contextArgument_def eval_nat_numeral)
  have two: "?second = (fst ?second, snd ?second)" by simp
  have val: "resultValue ?h1 (Inr (Some 6)) = Inr (Some (Ast
           [Func ''kibana'' [],
            Func ''kibana_context'' [(''timeRange'', []), (''query'', []), (''filters'', [])],
            Func ''lens_merge_tables''
              [(''layerIds'', [ArgText ''L1'', ArgText ''L2'']),
               (''tables'', [ArgTree (Ast [Func ''B'' []]), ArgTree (Ast [Func ''C'' []])])],
            Func ''A'' []]))"
    by (simp add: resultValue_def lookup_def sampleHeap_def nth_append)
  note changes = buildExpression_changes_nothing [OF m s al v sample_run two]
  from changes [THEN conjunct1]
  have frame: "take (length sampleHeap) ?h1 = sampleHeap" .
  from changes [THEN conjunct2, THEN conjunct1, rule_format, OF t2]
    changes [THEN conjunct2, THEN conjunct1, rule_format, OF t3]
  have trees: "lookup ?h1 2 = Some (TreeObject (Ast [Func ''A'' []]))"
    "lookup ?h1 3 = Some (TreeObject (Ast [Func ''C'' []]))"
    by simp_all
  from changes [THEN conjunct2, THEN conjunct2, THEN conjunct2, THEN conjunct2] val
  have again: "resultValue (snd ?second) (fst ?second) = Inr (Some (Ast
           [Func ''kibana'' [],
            Func ''kibana_context'' [(''timeRange'', []), (''query'', []), (''filters'', [])],
            Func ''lens_merge_tables''
              [(''layerIds'', [ArgText ''L1'', ArgText ''L2'']),
               (''tables'', [ArgTree (Ast [Func ''B'' []]), ArgTree (Ast [Func ''C'' []])])],
            Func ''A'' []]))"
    by simp
  from m s t2 t3 refs sample_run frame trees val again show ?thesis
    by (intro conjI)
qed

end
